theory Spec2Isabelle
  imports Main "HOL-Library.Char_ord" "HOL-Library.List_Lexorder"
begin

section \<open>Regular expressions of the scheduler\<close>

text \<open>
  \<^verbatim>\<open>SchedulerService.validateTimeFormat\<close> tests its argument against the literal
  \<^verbatim>\<open>/^([0-1]?[0-9]|2[0-3]):[0-5][0-9]$/\<close>. The pattern uses character ranges, single
  characters, concatenation, alternation and \<^verbatim>\<open>?\<close>; these are the constructors below.
  \<open>rx_rests r s\<close> lists what is left of \<open>s\<close> after each way of matching \<open>r\<close> at its start,
  so a pattern between \<^verbatim>\<open>^\<close> and \<^verbatim>\<open>$\<close> (no flags) matches when the empty rest is
  among them.
\<close>

datatype rx = CharRange char char | Lit char | Cat rx rx | Alt rx rx | Opt rx

fun rx_rests :: "rx \<Rightarrow> string \<Rightarrow> string list" where
  "rx_rests (CharRange lo hi) s =
     (case s of [] \<Rightarrow> [] | c # cs \<Rightarrow> if lo \<le> c \<and> c \<le> hi then [cs] else [])"
| "rx_rests (Lit a) s = (case s of [] \<Rightarrow> [] | c # cs \<Rightarrow> if c = a then [cs] else [])"
| "rx_rests (Cat r1 r2) s = concat (map (rx_rests r2) (rx_rests r1 s))"
| "rx_rests (Alt r1 r2) s = rx_rests r1 s @ rx_rests r2 s"
| "rx_rests (Opt r) s = rx_rests r s @ [s]"

definition rx_test_anchored :: "rx \<Rightarrow> string \<Rightarrow> bool" where
  "rx_test_anchored r s = ([] \<in> set (rx_rests r s))"

definition timeRegex :: rx where
  "timeRegex =
     Cat (Alt (Cat (Opt (CharRange CHR ''0'' CHR ''1'')) (CharRange CHR ''0'' CHR ''9''))
              (Cat (Lit CHR ''2'') (CharRange CHR ''0'' CHR ''3'')))
         (Cat (Lit CHR '':'') (Cat (CharRange CHR ''0'' CHR ''5'') (CharRange CHR ''0'' CHR ''9'')))"

definition validateTimeFormat :: "string \<Rightarrow> bool" where
  "validateTimeFormat time = rx_test_anchored timeRegex time"

text \<open>
  The format as the documentation words it: an hour 0-23 written with one or two digits,
  a colon, and a two-digit minute 00-59.
\<close>

definition is_digit :: "char \<Rightarrow> bool" where
  "is_digit c = (CHR ''0'' \<le> c \<and> c \<le> CHR ''9'')"

definition digit_val :: "char \<Rightarrow> nat" where
  "digit_val c = of_char c - 48"

fun hhmm_spec :: "string \<Rightarrow> bool" where
  "hhmm_spec [h, c, m1, m2] =
     (is_digit h \<and> c = CHR '':'' \<and>
      is_digit m1 \<and> is_digit m2 \<and> 10 * digit_val m1 + digit_val m2 \<le> 59)"
| "hhmm_spec [h1, h2, c, m1, m2] =
     (is_digit h1 \<and> is_digit h2 \<and> 10 * digit_val h1 + digit_val h2 \<le> 23 \<and> c = CHR '':'' \<and>
      is_digit m1 \<and> is_digit m2 \<and> 10 * digit_val m1 + digit_val m2 \<le> 59)"
| "hhmm_spec _ = False"

definition code :: "char \<Rightarrow> nat" where
  "code c = of_char c"

section \<open>Values of the JavaScript runtime\<close>

text \<open>
  A thrown value is an \<^verbatim>\<open>Error\<close> object with its message, or some other value; the
  handlers of the scheduler tell the two apart with \<^verbatim>\<open>error instanceof Error\<close>.
\<close>

datatype js_error = JsError string | NonError

text \<open>
  Text that is not printable ASCII is kept as the bytes of its UTF-8 encoding.
\<close>

definition utf8 :: "nat list \<Rightarrow> string" where
  "utf8 bs = map char_of bs"

text \<open>The decimal text of a non-negative integer, as a template literal renders it.\<close>

fun nat_to_string :: "nat \<Rightarrow> string" where
  "nat_to_string n =
     (if n < 10 then [''0123456789'' ! n]
      else nat_to_string (n div 10) @ [''0123456789'' ! (n mod 10)])"

declare nat_to_string.simps [simp del]

definition pad_start :: "nat \<Rightarrow> string \<Rightarrow> string" where
  "pad_start n s = replicate (n - length s) CHR ''0'' @ s"

text \<open>\<^verbatim>\<open>String.prototype.split\<close> with a one-character separator.\<close>

fun split_on :: "char \<Rightarrow> string \<Rightarrow> string list" where
  "split_on sep [] = [[]]"
| "split_on sep (x # xs) =
     (if x = sep then [] # split_on sep xs
      else (case split_on sep xs of p # ps \<Rightarrow> (x # p) # ps | [] \<Rightarrow> [[x]]))"

text \<open>JavaScript truthiness of a \<^verbatim>\<open>string | null\<close>: neither null nor empty.\<close>

definition truthy :: "string option \<Rightarrow> bool" where
  "truthy v = (case v of None \<Rightarrow> False | Some s \<Rightarrow> s \<noteq> [])"

section \<open>Dates\<close>

text \<open>
  A \<^verbatim>\<open>Date\<close> is its time value, the milliseconds since the epoch. Local time is the time
  of the zone of the server process, taken here with a fixed offset \<open>off\<close> (milliseconds
  east of UTC): a day on which that offset changes is outside this model.
\<close>

definition ms_per_day :: int where
  "ms_per_day = 86400000"

definition local_day :: "int \<Rightarrow> int \<Rightarrow> int" where
  "local_day off t = (t + off) div ms_per_day"

definition local_time_of_day :: "int \<Rightarrow> int \<Rightarrow> int" where
  "local_time_of_day off t = (t + off) mod ms_per_day"

text \<open>\<^verbatim>\<open>d.setHours(h, m, s, ms)\<close>: same local calendar day, the given local time.\<close>

definition setHours :: "int \<Rightarrow> int \<Rightarrow> int \<Rightarrow> int \<Rightarrow> int \<Rightarrow> int \<Rightarrow> int" where
  "setHours off t h m s ms =
     local_day off t * ms_per_day + (h * 3600000 + m * 60000 + s * 1000 + ms) - off"

text \<open>\<^verbatim>\<open>d.setDate(d.getDate() - 1)\<close>: the local calendar day before, the same local time.\<close>

definition setDate_getDate_minus_1 :: "int \<Rightarrow> int \<Rightarrow> int" where
  "setDate_getDate_minus_1 off t =
     (local_day off t - 1) * ms_per_day + local_time_of_day off t - off"

text \<open>
  Calendar date (year, month, day) of a day number counted from 1970-01-01, by the
  400-year era of the day, the year of the era, the day of the year counted from 1 March
  and the month counted from March.
\<close>

definition year_of_era :: "int \<Rightarrow> int" where
  "year_of_era doe = (doe - doe div 1460 + doe div 36524 - doe div 146096) div 365"

definition day_of_year :: "int \<Rightarrow> int \<Rightarrow> int" where
  "day_of_year doe yoe = doe - (365 * yoe + yoe div 4 - yoe div 100)"

definition month_from_march :: "int \<Rightarrow> int" where
  "month_from_march doy = (5 * doy + 2) div 153"

definition civil_month :: "int \<Rightarrow> int" where
  "civil_month mp = (if mp < 10 then mp + 3 else mp - 9)"

definition civil_day :: "int \<Rightarrow> int \<Rightarrow> int" where
  "civil_day doy mp = doy - (153 * mp + 2) div 5 + 1"

definition civil_year :: "int \<Rightarrow> int \<Rightarrow> int \<Rightarrow> int" where
  "civil_year era yoe m = yoe + era * 400 + (if m \<le> 2 then 1 else 0)"

definition civil_of :: "int \<Rightarrow> int \<Rightarrow> int \<Rightarrow> int \<Rightarrow> int \<times> int \<times> int" where
  "civil_of era yoe doy mp = (civil_year era yoe (civil_month mp), civil_month mp, civil_day doy mp)"

definition civil_from_doe :: "int \<Rightarrow> int \<Rightarrow> int \<times> int \<times> int" where
  "civil_from_doe era doe =
     civil_of era (year_of_era doe) (day_of_year doe (year_of_era doe))
       (month_from_march (day_of_year doe (year_of_era doe)))"

definition civil_from_days :: "int \<Rightarrow> int \<times> int \<times> int" where
  "civil_from_days z = civil_from_doe ((z + 719468) div 146097) ((z + 719468) mod 146097)"

definition int_text :: "nat \<Rightarrow> int \<Rightarrow> string" where
  "int_text width i = pad_start width (nat_to_string (nat i))"

definition year_text :: "int \<Rightarrow> string" where
  "year_text y =
     (if 0 \<le> y \<and> y \<le> 9999 then int_text 4 y
      else (if y < 0 then ''-'' else ''+'') @ int_text 6 (abs y))"

definition clock_text :: "int \<Rightarrow> string" where
  "clock_text tod =
     int_text 2 (tod div 3600000) @ '':'' @ int_text 2 (tod mod 3600000 div 60000) @ '':'' @
     int_text 2 (tod mod 60000 div 1000)"

definition date_text :: "int \<Rightarrow> string" where
  "date_text day =
     (case civil_from_days day of
        (y, m, d) \<Rightarrow> year_text y @ ''-'' @ int_text 2 m @ ''-'' @ int_text 2 d)"

text \<open>\<^verbatim>\<open>d.toISOString()\<close>: UTC, \<^verbatim>\<open>YYYY-MM-DDTHH:mm:ss.sssZ\<close>.\<close>

definition toISOString :: "int \<Rightarrow> string" where
  "toISOString t =
     date_text (t div ms_per_day) @ ''T'' @ clock_text (t mod ms_per_day) @ ''.'' @
     int_text 3 (t mod 1000) @ ''Z''"

text \<open>\<^verbatim>\<open>d.toLocaleDateString('ru-RU')\<close>: local, \<^verbatim>\<open>DD.MM.YYYY\<close>.\<close>

definition toLocaleDateString_ru :: "int \<Rightarrow> int \<Rightarrow> string" where
  "toLocaleDateString_ru off t =
     (case civil_from_days (local_day off t) of
        (y, m, d) \<Rightarrow> int_text 2 d @ ''.'' @ int_text 2 m @ ''.'' @ year_text y)"

text \<open>
  SQLite's \<^verbatim>\<open>CURRENT_TIMESTAMP\<close>, the default of every \<^verbatim>\<open>created_at\<close> column: UTC,
  \<^verbatim>\<open>YYYY-MM-DD HH:MM:SS\<close>.
\<close>

definition CURRENT_TIMESTAMP :: "int \<Rightarrow> string" where
  "CURRENT_TIMESTAMP t = date_text (t div ms_per_day) @ '' '' @ clock_text (t mod ms_per_day)"

section \<open>The store\<close>

text \<open>
  The rows of \<^verbatim>\<open>storage.ts\<close>, with the columns the summarizer and the scheduler read. The
  surrogate \<^verbatim>\<open>id\<close>, \<^verbatim>\<open>updated_at\<close>, the chat kind and \<^verbatim>\<open>file_path\<close> are read by none of the
  functions below and are left out. A table is the list of its rows in insertion order.
\<close>

record Chat =
  chat_id :: string
  title :: string
  report_time :: string
  timezone :: string
  target_username :: string
  is_active :: bool

record User =
  user_id :: string
  username :: "string option"
  first_name :: string
  last_name :: "string option"
  is_opted_out :: bool

datatype message_type = Text | Photo | Video | Voice | Audio | VideoNote | Sticker | Document

record Message =
  m_chat_id :: string
  message_id :: string
  m_user_id :: string
  message_type :: message_type
  content :: "string option"
  file_id :: "string option"
  reply_to_message_id :: "string option"
  created_at :: string

record Transcript =
  t_message_id :: string
  t_file_id :: string
  transcript_text :: string
  language :: "string option"
  duration :: "int option"

record Database =
  chats :: "Chat list"
  users :: "User list"
  db_messages :: "Message list"
  transcripts :: "Transcript list"

definition getChat :: "Database \<Rightarrow> string \<Rightarrow> Chat option" where
  "getChat d cid = find (\<lambda>c. chat_id c = cid) (chats d)"

definition getAllActiveChats :: "Database \<Rightarrow> Chat list" where
  "getAllActiveChats d = filter is_active (chats d)"

definition getUser :: "Database \<Rightarrow> string \<Rightarrow> User option" where
  "getUser d uid = find (\<lambda>u. user_id u = uid) (users d)"

text \<open>
  \<^verbatim>\<open>setUserOptOut\<close> prepares the \<^verbatim>\<open>UPDATE\<close> of the flag and runs it with
  \<^verbatim>\<open>stmt.run(isOptedOut, userId)\<close>, the first parameter being a JavaScript boolean. The
  repository pins better-sqlite3 \<^verbatim>\<open>^9.2.2\<close>, which binds numbers, strings, bigints, buffers
  and null and refuses any other value with a \<^verbatim>\<open>TypeError\<close> before the statement is
  executed: the call throws and the table is as it was.
\<close>

definition bind_error :: js_error where
  "bind_error = JsError ''SQLite3 can only bind numbers, strings, bigints, buffers, and null''"

definition setUserOptOut :: "Database \<Rightarrow> string \<Rightarrow> bool \<Rightarrow> (js_error + unit) \<times> Database" where
  "setUserOptOut d uid isOptedOut = (Inl bind_error, d)"

text \<open>
  \<^verbatim>\<open>insertMessage\<close> supplies no \<^verbatim>\<open>created_at\<close>, so the row gets the column default at the
  instant \<open>now\<close> of the insert. The table is \<^verbatim>\<open>UNIQUE(chat_id, message_id)\<close> and refers to
  \<^verbatim>\<open>chats\<close> and \<^verbatim>\<open>users\<close> with foreign keys switched on.
\<close>

definition insertMessage :: "int \<Rightarrow> Database \<Rightarrow> Message \<Rightarrow> (js_error + Message) \<times> Database" where
  "insertMessage now d message =
     (if \<exists>m \<in> set (db_messages d).
           m_chat_id m = m_chat_id message \<and> message_id m = message_id message
      then (Inl (JsError ''UNIQUE constraint failed: messages.chat_id, messages.message_id''), d)
      else if getChat d (m_chat_id message) = None \<or> getUser d (m_user_id message) = None
      then (Inl (JsError ''FOREIGN KEY constraint failed''), d)
      else (let row = message\<lparr>created_at := CURRENT_TIMESTAMP now\<rparr>
            in (Inr row, d\<lparr>db_messages := db_messages d @ [row]\<rparr>)))"

text \<open>
  \<^verbatim>\<open>FROM messages m JOIN users u ON m.user_id = u.user_id\<close>: every message row paired with
  every user row of its author.
\<close>

definition joined_rows :: "Database \<Rightarrow> (Message \<times> User) list" where
  "joined_rows d =
     concat (map (\<lambda>m. map (\<lambda>u. (m, u)) (filter (\<lambda>u. user_id u = m_user_id m) (users d)))
                 (db_messages d))"

text \<open>
  \<^verbatim>\<open>WHERE m.chat_id = ? AND m.created_at >= ? AND m.created_at < ? ORDER BY m.created_at ASC\<close>.
  The column holds text and the bounds are bound as text, so SQLite compares them byte by
  byte, which is the lexicographic order of \<open>string\<close>. Rows with equal keys keep their
  table order.
\<close>

definition in_range :: "string \<Rightarrow> string \<Rightarrow> string \<Rightarrow> Message \<times> User \<Rightarrow> bool" where
  "in_range chatId startDate endDate r =
     (m_chat_id (fst r) = chatId \<and> created_at (fst r) \<ge> startDate \<and>
      created_at (fst r) < endDate)"

definition getMessagesForDateRange ::
  "Database \<Rightarrow> string \<Rightarrow> string \<Rightarrow> string \<Rightarrow> (Message \<times> User) list" where
  "getMessagesForDateRange d chatId startDate endDate =
     sort_key (\<lambda>r. created_at (fst r)) (filter (in_range chatId startDate endDate) (joined_rows d))"

definition getTranscript :: "Database \<Rightarrow> string \<Rightarrow> string \<Rightarrow> Transcript option" where
  "getTranscript d messageId fileId =
     find (\<lambda>t. t_message_id t = messageId \<and> t_file_id t = fileId) (transcripts d)"

text \<open>
  \<^verbatim>\<open>insertTranscript\<close> is a plain \<^verbatim>\<open>INSERT\<close> into a table that is
  \<^verbatim>\<open>UNIQUE(message_id, file_id)\<close>: a second row with the same pair is refused and the
  statement throws.
\<close>

definition insertTranscript ::
  "Database \<Rightarrow> Transcript \<Rightarrow> (js_error + Transcript) \<times> Database" where
  "insertTranscript d row =
     (case getTranscript d (t_message_id row) (t_file_id row) of
        Some existing \<Rightarrow>
          (Inl (JsError ''UNIQUE constraint failed: transcripts.message_id, transcripts.file_id''), d)
      | None \<Rightarrow> (Inr row, d\<lparr>transcripts := transcripts d @ [row]\<rparr>))"

section \<open>The summarizer\<close>

record ProcessedMessage =
  pm_id :: string
  pm_username :: "string option"
  firstName :: string
  lastName :: "string option"
  pm_type :: message_type
  pm_content :: "string option"
  transcript :: "string option"
  timestamp :: string
  replyTo :: "string option"

record SummaryContext =
  chatTitle :: string
  ctx_date :: string
  totalMessages :: nat
  targetUsername :: string

record ProcessedMessageData =
  messages :: "ProcessedMessage list"
  totalCount :: nat
  dateRange_start :: string
  dateRange_end :: string

text \<open>The body of the loop of \<^verbatim>\<open>getMessagesForDate\<close>, for one joined row.\<close>

definition process_row :: "Database \<Rightarrow> Message \<times> User \<Rightarrow> ProcessedMessage" where
  "process_row d r =
     (case r of (msg, u) \<Rightarrow>
        \<lparr>pm_id = message_id msg,
         pm_username = username u,
         firstName = first_name u,
         lastName = last_name u,
         pm_type = message_type msg,
         pm_content = content msg,
         transcript =
           (if (message_type msg = Voice \<or> message_type msg = VideoNote \<or>
                message_type msg = Audio) \<and> truthy (file_id msg)
            then map_option transcript_text (getTranscript d (message_id msg) (the (file_id msg)))
            else None),
         timestamp = created_at msg,
         replyTo = (if truthy (reply_to_message_id msg) then reply_to_message_id msg else None)\<rparr>)"

definition startOfDay :: "int \<Rightarrow> int \<Rightarrow> int" where
  "startOfDay off date = setHours off date 0 0 0 0"

definition endOfDay :: "int \<Rightarrow> int \<Rightarrow> int" where
  "endOfDay off date = setHours off date 23 59 59 999"

definition getMessagesForDate :: "int \<Rightarrow> Database \<Rightarrow> string \<Rightarrow> int \<Rightarrow> ProcessedMessageData" where
  "getMessagesForDate off d chatId date =
     (let rawMessages =
            getMessagesForDateRange d chatId (toISOString (startOfDay off date))
              (toISOString (endOfDay off date));
          filteredMessages = filter (\<lambda>msg. \<not> is_opted_out (snd msg)) rawMessages;
          processedMessages = map (process_row d) filteredMessages
      in \<lparr>messages = processedMessages,
          totalCount = length rawMessages,
          dateRange_start = toISOString (startOfDay off date),
          dateRange_end = toISOString (endOfDay off date)\<rparr>)"

definition shouldGenerateSummary :: "int \<Rightarrow> Database \<Rightarrow> string \<Rightarrow> int \<Rightarrow> bool" where
  "shouldGenerateSummary off d chatId date =
     (length (messages (getMessagesForDate off d chatId date)) > 0)"

section \<open>What lies outside the repository\<close>

text \<open>
  The behaviour of the libraries and services the code calls is a parameter of the model:
  \<^item> \<open>server_offset_ms\<close>: the zone of the server process (see the section on dates);
  \<^item> \<open>Number_text s\<close>: the text a template literal gives for \<^verbatim>\<open>Number(s)\<close>;
  \<^item> \<open>cron_validate\<close>: \<^verbatim>\<open>cron.validate\<close> of node-cron;
  \<^item> \<open>cron_schedule e tz\<close>: what \<^verbatim>\<open>cron.schedule\<close> throws for expression \<open>e\<close> and the option
    \<^verbatim>\<open>timezone: tz\<close>, if it throws;
  \<^item> \<open>models_list_ok\<close>: whether \<^verbatim>\<open>client.models.list()\<close>, the probe of \<^verbatim>\<open>isAvailable\<close>, succeeds;
  \<^item> \<open>chat_completion\<close>: the content of the first choice of the completion request for the
    prompt built from the messages and the context (empty when the response has none), or
    the error the request throws;
  \<^item> \<open>telegram_send n chat text\<close>: the error of the \<open>n\<close>-th \<^verbatim>\<open>sendMessage\<close> call of the
    process, if it fails;
  \<^item> \<open>stat_size\<close>, \<open>fileSizeLimitBytes\<close>, \<open>convertToMp3\<close>, \<open>whisper\<close>: the file system, the
    configured limit, ffmpeg and the speech-to-text request of \<^verbatim>\<open>stt.ts\<close>.
\<close>

record Env =
  server_offset_ms :: int
  Number_text :: "string \<Rightarrow> string"
  cron_validate :: "string \<Rightarrow> bool"
  cron_schedule :: "string \<Rightarrow> string \<Rightarrow> js_error option"
  models_list_ok :: bool
  chat_completion :: "ProcessedMessage list \<Rightarrow> SummaryContext \<Rightarrow> js_error + string"
  telegram_send :: "nat \<Rightarrow> string \<Rightarrow> string \<Rightarrow> js_error option"
  stat_size :: "string \<Rightarrow> js_error + nat"
  fileSizeLimitBytes :: nat
  convertToMp3 :: "string \<Rightarrow> js_error + string"
  whisper :: "string \<Rightarrow> string option"

section \<open>The state of the process\<close>

text \<open>
  A job is the task \<^verbatim>\<open>cron.schedule\<close> returns: its expression, its timezone option and the
  chat object its callback has captured. \<open>cronJobs\<close> is the map of the scheduler; \<open>running\<close>
  are the tasks of node-cron that have been started and not stopped, the live timers. The
  repository pins node-cron \<^verbatim>\<open>^3.0.3\<close>: a task of that version has the methods \<^verbatim>\<open>start\<close>
  and \<^verbatim>\<open>stop\<close>, taken to do what their names say and not to throw, and no method
  \<^verbatim>\<open>destroy\<close>, so that the call \<^verbatim>\<open>job.destroy()\<close> throws a \<^verbatim>\<open>TypeError\<close>.
\<close>

record Job =
  job_handle :: nat
  job_expression :: string
  job_timezone :: string
  job_chat :: Chat

datatype provider = OpenAIProvider | FallbackProvider

datatype backend_request = ModelsList | ChatCompletion "ProcessedMessage list" SummaryContext

record World =
  db :: Database
  cronJobs :: "string \<rightharpoonup> Job"
  running :: "Job list"
  next_handle :: nat
  factory_instance :: "provider option"
  llmProvider :: "provider option"
  backend_requests :: "backend_request list"
  whisper_requests :: "string list"
  send_attempts :: nat
  sent :: "(string \<times> string) list"
  error_log :: "string list"

section \<open>The text backends\<close>

text \<open>
  The fixed texts of the fallback digest, of the digest of an empty day and of the error
  notice, cut where the templates insert a value. Each is the literal of the source file
  as that file holds it: \<open>fallback_heading\<close> to \<open>fallback_footer\<close> from \<^verbatim>\<open>llm.ts\<close>,
  \<open>empty_summary_tail\<close> from \<^verbatim>\<open>summarizer.ts\<close>, the last two from \<^verbatim>\<open>scheduler.ts\<close>.
\<close>

definition fallback_heading :: string where
  "fallback_heading =
     '' '' @ utf8 [208, 161, 208, 189, 208, 190, 208, 178, 208, 176] @ '' '' @ utf8 [208,
      189, 208, 181] @ '' '' @ utf8 [208, 191, 209, 128, 208, 190, 209, 135, 208, 184, 209,
      130, 208, 176, 208, 187] @ '' '' @ utf8 [209, 135, 208, 176, 209, 130] @ '', '' @
      utf8 [208, 191, 208, 181, 209, 129] @ ''? '' @ utf8 [208, 161, 208, 190, 209, 129,
      208, 184] @ '' '' @ utf8 [208, 190, 208, 179, 209, 128, 209, 139, 208, 183, 208, 186,
      208, 184] @ '':'' @ utf8 [10, 10, 240, 159, 147, 157] @ '' **'' @ utf8 [208, 162,
      208, 181, 208, 188, 209, 139] @ '':** '' @ utf8 [208, 158, 208, 177, 209, 129, 209,
      131, 208, 182, 208, 180, 208, 181, 208, 189, 208, 184, 208, 181] @ '' '' @ utf8 [209,
      128, 208, 176, 208, 183, 208, 187, 208, 184, 209, 135, 208, 189, 209, 139, 209, 133]
      @ '' '' @ utf8 [208, 178, 208, 190, 208, 191, 209, 128, 208, 190, 209, 129, 208, 190,
      208, 178, 10]"

definition statistics_label :: string where
  "statistics_label =
     utf8 [240, 159, 147, 138] @ '' **'' @ utf8 [208, 161, 209, 130, 208, 176, 209, 130,
      208, 184, 209, 129, 209, 130, 208, 184, 208, 186, 208, 176] @ '':** ''"

definition statistics_suffix :: string where
  "statistics_suffix =
     '' '' @ utf8 [209, 129, 208, 190, 208, 190, 208, 177, 209, 137, 208, 181, 208, 189,
      208, 184, 208, 185] @ '' '' @ utf8 [208, 183, 208, 176] @ '' '' @ utf8 [208, 180,
      208, 181, 208, 189, 209, 140]"

definition fallback_voice_label :: string where
  "fallback_voice_label =
     utf8 [10, 240, 159, 142, 164] @ '' **'' @ utf8 [208, 147, 208, 190, 208, 187, 208,
      190, 209, 129, 208, 190, 208, 178, 209, 139, 208, 181] @ ''/'' @ utf8 [208, 186, 209,
      128, 209, 131, 208, 182, 208, 186, 208, 184] @ '':** ''"

definition fallback_media_label :: string where
  "fallback_media_label =
     '' '' @ utf8 [208, 176, 209, 131, 208, 180, 208, 184, 208, 190, 209, 129, 208, 190,
      208, 190, 208, 177, 209, 137, 208, 181, 208, 189, 208, 184, 208, 185, 10, 240, 159,
      147, 142] @ '' **'' @ utf8 [208, 156, 208, 181, 208, 180, 208, 184, 208, 176] @
      '':** ''"

definition fallback_text_label :: string where
  "fallback_text_label =
     '' '' @ utf8 [209, 132, 208, 176, 208, 185, 208, 187, 208, 190, 208, 178, 10, 240,
      159, 146, 172] @ '' **'' @ utf8 [208, 162, 208, 181, 208, 186, 209, 129, 209, 130,
      208, 190, 208, 178, 209, 139, 209, 133] @ '':** ''"

definition fallback_footer :: string where
  "fallback_footer =
     '' '' @ utf8 [209, 129, 208, 190, 208, 190, 208, 177, 209, 137, 208, 181, 208, 189,
      208, 184, 208, 185, 10, 10] @ ''_'' @ utf8 [208, 148, 208, 181, 209, 130, 208, 176,
      208, 187, 209, 140, 208, 189, 208, 190, 208, 181] @ '' '' @ utf8 [209, 129, 208, 176,
      208, 188, 208, 188, 208, 176, 209, 128, 208, 184] @ '' '' @ utf8 [208, 178, 209, 128,
      208, 181, 208, 188, 208, 181, 208, 189, 208, 189, 208, 190] @ '' '' @ utf8 [208, 189,
      208, 181, 208, 180, 208, 190, 209, 129, 209, 130, 209, 131, 208, 191, 208, 189, 208,
      190] @ ''. '' @ utf8 [208, 159, 209, 128, 208, 190, 208, 178, 208, 181, 209, 128,
      209, 140, 209, 130, 208, 181] @ '' '' @ utf8 [208, 189, 208, 176, 209, 129, 209, 130,
      209, 128, 208, 190, 208, 185, 208, 186, 208, 184] @ '' OpenAI API._''"

definition empty_summary_tail :: string where
  "empty_summary_tail =
     '' '' @ utf8 [226, 128, 147, 194, 176, 226, 128, 147, 206, 169, 226, 128, 147, 195,
      166, 226, 128, 147, 226, 137, 164, 226, 128, 147, 226, 136, 158] @ '' '' @ utf8 [226,
      128, 147, 206, 169, 226, 128, 147, 194, 181] @ '' '' @ utf8 [226, 128, 147, 195, 184,
      226, 128, 148, 195, 132, 226, 128, 147, 195, 166, 226, 128, 148, 195, 161, 226, 128,
      147, 226, 136, 143, 226, 128, 148, 195, 135, 226, 128, 147, 226, 136, 158, 226, 128,
      147, 194, 170] @ '' '' @ utf8 [226, 128, 148, 195, 161, 226, 128, 147, 226, 136, 158,
      226, 128, 148, 195, 135] @ '', '' @ utf8 [226, 128, 147, 195, 184, 226, 128, 147,
      194, 181, 226, 128, 148, 195, 133] @ ''? '' @ utf8 [226, 128, 147, 194, 176, 226,
      128, 147, 195, 166, 226, 128, 148, 195, 133, 226, 128, 147, 226, 136, 143] @ '' '' @
      utf8 [226, 128, 147, 195, 166, 226, 128, 147, 226, 137, 165, 226, 128, 148, 195, 132,
      226, 128, 148, 195, 163, 226, 128, 147, 226, 136, 145, 226, 128, 147, 226, 136, 171,
      226, 128, 147, 226, 136, 143] @ '':'' @ utf8 [10, 10, 239, 163, 191, 195, 188, 195,
      172, 195, 185] @ '' **'' @ utf8 [226, 128, 147, 194, 162, 226, 128, 147, 194, 181,
      226, 128, 147, 194, 186, 226, 128, 148, 195, 163] @ '':** '' @ utf8 [226, 128, 147,
      195, 185, 226, 128, 147, 226, 136, 143, 226, 128, 147, 226, 136, 171, 226, 128, 147,
      226, 136, 158, 226, 128, 147, 226, 136, 171, 226, 128, 147, 226, 136, 143, 226, 128,
      148, 195, 150] @ '' '' @ utf8 [226, 128, 147, 195, 166, 226, 128, 147, 194, 177, 226,
      128, 148, 195, 133, 226, 128, 148, 195, 137, 226, 128, 147, 226, 136, 130, 226, 128,
      147, 194, 165, 226, 128, 147, 194, 181, 226, 128, 147, 206, 169, 226, 128, 147, 226,
      136, 143, 226, 128, 147, 207, 128, 10, 239, 163, 191, 195, 188, 195, 172, 195, 164] @
      '' **'' @ utf8 [226, 128, 147, 194, 176, 226, 128, 148, 195, 135, 226, 128, 147, 226,
      136, 158, 226, 128, 148, 195, 135, 226, 128, 147, 226, 136, 143, 226, 128, 148, 195,
      133, 226, 128, 148, 195, 135, 226, 128, 147, 226, 136, 143, 226, 128, 147, 226, 136,
      171, 226, 128, 147, 226, 136, 158] @ '':** 0 '' @ utf8 [226, 128, 148, 195, 133, 226,
      128, 147, 195, 166, 226, 128, 147, 195, 166, 226, 128, 147, 194, 177, 226, 128, 148,
      195, 162, 226, 128, 147, 194, 181, 226, 128, 147, 206, 169, 226, 128, 147, 226, 136,
      143, 226, 128, 147, 207, 128] @ '' '' @ utf8 [226, 128, 147, 226, 136, 145, 226, 128,
      147, 226, 136, 158] @ '' '' @ utf8 [226, 128, 147, 194, 165, 226, 128, 147, 194, 181,
      226, 128, 147, 206, 169, 226, 128, 148, 195, 165, 10, 239, 163, 191, 195, 188, 195,
      169, 194, 167] @ '' **'' @ utf8 [226, 128, 147, 195, 172, 226, 128, 147, 195, 166,
      226, 128, 147, 194, 170, 226, 128, 147, 195, 166, 226, 128, 148, 195, 133, 226, 128,
      147, 195, 166, 226, 128, 147, 226, 137, 164, 226, 128, 148, 195, 163, 226, 128, 147,
      194, 181] @ ''/'' @ utf8 [226, 128, 147, 226, 136, 171, 226, 128, 148, 195, 132, 226,
      128, 148, 195, 137, 226, 128, 147, 226, 136, 130, 226, 128, 147, 226, 136, 171, 226,
      128, 147, 226, 136, 143] @ '':** '' @ utf8 [226, 128, 147, 195, 185, 226, 128, 147,
      194, 181, 226, 128, 148, 195, 135, 10, 239, 163, 191, 195, 188, 195, 172, 195, 169] @
      '' **'' @ utf8 [226, 128, 147, 195, 186, 226, 128, 147, 194, 181, 226, 128, 147, 194,
      165, 226, 128, 147, 226, 136, 143, 226, 128, 147, 226, 136, 158] @ '':** '' @ utf8
      [226, 128, 147, 195, 185, 226, 128, 147, 194, 181, 226, 128, 148, 195, 135, 10, 239,
      163, 191, 195, 188, 195, 173, 194, 168] @ '' **'' @ utf8 [226, 128, 147, 194, 162,
      226, 128, 147, 194, 181, 226, 128, 147, 226, 136, 171, 226, 128, 148, 195, 133, 226,
      128, 148, 195, 135, 226, 128, 147, 195, 166, 226, 128, 147, 226, 137, 164, 226, 128,
      148, 195, 163, 226, 128, 148, 195, 150] @ '':** '' @ utf8 [226, 128, 147, 195, 185,
      226, 128, 147, 194, 181, 226, 128, 148, 195, 135, 10, 10] @ ''_'' @ utf8 [226, 128,
      147, 194, 176, 226, 128, 147, 194, 181, 226, 128, 147, 226, 137, 165, 226, 128, 147,
      195, 166, 226, 128, 147, 194, 165, 226, 128, 147, 206, 169, 226, 128, 148, 195, 168]
      @ '' '' @ utf8 [226, 128, 147, 226, 137, 164] @ '' '' @ utf8 [226, 128, 148, 195,
      161, 226, 128, 147, 226, 136, 158, 226, 128, 148, 195, 135, 226, 128, 147, 194, 181]
      @ '' '' @ utf8 [226, 128, 147, 194, 177, 226, 128, 148, 195, 163, 226, 128, 147, 194,
      170, 226, 128, 147, 195, 166] @ '' '' @ utf8 [226, 128, 148, 195, 135, 226, 128, 147,
      226, 136, 143, 226, 128, 148, 195, 150, 226, 128, 147, 195, 166] @ ''. '' @ utf8
      [226, 128, 147, 195, 173, 226, 128, 147, 195, 166, 226, 128, 147, 226, 136, 145, 226,
      128, 147, 194, 186, 226, 128, 147, 195, 166, 226, 128, 147, 226, 136, 130, 226, 128,
      147, 206, 169, 226, 128, 147, 195, 166] @ '', '' @ utf8 [226, 128, 147, 226, 137,
      164, 226, 128, 148, 195, 133, 226, 128, 147, 194, 181] @ '' '' @ utf8 [226, 128, 147,
      226, 136, 145, 226, 128, 147, 226, 136, 158, 226, 128, 147, 206, 169, 226, 128, 148,
      195, 168, 226, 128, 148, 195, 135, 226, 128, 148, 195, 163] @ '' '' @ utf8 [226, 128,
      147, 226, 137, 164, 226, 128, 147, 226, 136, 158, 226, 128, 147, 226, 136, 130, 226,
      128, 147, 206, 169, 226, 128, 148, 195, 163, 226, 128, 147, 194, 186, 226, 128, 147,
      226, 136, 143] @ '' '' @ utf8 [226, 128, 147, 194, 165, 226, 128, 147, 194, 181, 226,
      128, 147, 194, 170, 226, 128, 147, 226, 136, 158, 226, 128, 147, 194, 186, 226, 128,
      147, 226, 136, 143] @ ''!_ '' @ utf8 [239, 163, 191, 195, 188, 195, 178, 194, 165]"

definition error_notice_prefix :: string where
  "error_notice_prefix =
     utf8 [226, 157, 140] @ '' '' @ utf8 [208, 158, 209, 136, 208, 184, 208, 177, 208, 186,
      208, 176] @ '' '' @ utf8 [208, 191, 209, 128, 208, 184] @ '' '' @ utf8 [209, 129,
      208, 190, 208, 183, 208, 180, 208, 176, 208, 189, 208, 184, 208, 184] @ '' '' @ utf8
      [208, 181, 208, 182, 208, 181, 208, 180, 208, 189, 208, 181, 208, 178, 208, 189, 208,
      190, 208, 179, 208, 190] @ '' '' @ utf8 [208, 190, 209, 130, 209, 135, 208, 181, 209,
      130, 208, 176] @ '': ''"

definition unknown_error_text :: string where
  "unknown_error_text =
     utf8 [208, 157, 208, 181, 208, 184, 208, 183, 208, 178, 208, 181, 209, 129, 209, 130,
      208, 189, 208, 176, 209, 143] @ '' '' @ utf8 [208, 190, 209, 136, 208, 184, 208, 177,
      208, 186, 208, 176]"


text \<open>\<^verbatim>\<open>FallbackProvider.generateSummary\<close>.\<close>

definition FallbackProvider_generateSummary ::
  "ProcessedMessage list \<Rightarrow> SummaryContext \<Rightarrow> string" where
  "FallbackProvider_generateSummary msgs context =
     (let textMessages = filter (\<lambda>m. pm_type m = Text \<and> truthy (pm_content m)) msgs;
          voiceMessages =
            filter (\<lambda>m. (pm_type m = Voice \<or> pm_type m = VideoNote) \<and> truthy (transcript m)) msgs;
          mediaMessages = filter (\<lambda>m. pm_type m \<in> set [Photo, Video, Document]) msgs
      in targetUsername context @ fallback_heading @
         statistics_label @ nat_to_string (totalMessages context) @ statistics_suffix @
         fallback_voice_label @ nat_to_string (length voiceMessages) @
         fallback_media_label @ nat_to_string (length mediaMessages) @
         fallback_text_label @ nat_to_string (length textMessages) @ fallback_footer)"

text \<open>
  \<^verbatim>\<open>OpenAIProvider.generateSummary\<close>: one completion request; a response without content
  throws, and the handler rethrows whatever was thrown.
\<close>

definition OpenAIProvider_generateSummary ::
  "Env \<Rightarrow> World \<Rightarrow> ProcessedMessage list \<Rightarrow> SummaryContext \<Rightarrow> (js_error + string) \<times> World" where
  "OpenAIProvider_generateSummary env w msgs context =
     (let w1 = w\<lparr>backend_requests := backend_requests w @ [ChatCompletion msgs context]\<rparr>
      in case chat_completion env msgs context of
           Inl e \<Rightarrow> (Inl e, w1\<lparr>error_log := error_log w1 @ [''Failed to generate summary'']\<rparr>)
         | Inr summary \<Rightarrow>
             if summary = []
             then (Inl (JsError ''Empty response from OpenAI''),
                   w1\<lparr>error_log := error_log w1 @ [''Failed to generate summary'']\<rparr>)
             else (Inr summary, w1))"

definition provider_generateSummary ::
  "Env \<Rightarrow> World \<Rightarrow> provider \<Rightarrow> ProcessedMessage list \<Rightarrow> SummaryContext \<Rightarrow>
   (js_error + string) \<times> World" where
  "provider_generateSummary env w p msgs context =
     (case p of
        OpenAIProvider \<Rightarrow> OpenAIProvider_generateSummary env w msgs context
      | FallbackProvider \<Rightarrow> (Inr (FallbackProvider_generateSummary msgs context), w))"

text \<open>\<^verbatim>\<open>LLMProviderFactory.getProvider\<close>: probe once, keep the choice.\<close>

definition getProvider :: "Env \<Rightarrow> World \<Rightarrow> provider \<times> World" where
  "getProvider env w =
     (case factory_instance w of
        Some p \<Rightarrow> (p, w)
      | None \<Rightarrow>
          (let w1 = w\<lparr>backend_requests := backend_requests w @ [ModelsList]\<rparr>;
               p = (if models_list_ok env then OpenAIProvider else FallbackProvider)
           in (p, w1\<lparr>factory_instance := Some p\<rparr>)))"

text \<open>\<^verbatim>\<open>DailySummarizer.getLLMProvider\<close>.\<close>

definition getLLMProvider :: "Env \<Rightarrow> World \<Rightarrow> provider \<times> World" where
  "getLLMProvider env w =
     (case llmProvider w of
        Some p \<Rightarrow> (p, w)
      | None \<Rightarrow> (case getProvider env w of (p, w1) \<Rightarrow> (p, w1\<lparr>llmProvider := Some p\<rparr>)))"

definition generateEmptySummary :: "string \<Rightarrow> string" where
  "generateEmptySummary target = target @ empty_summary_tail"

text \<open>
  \<^verbatim>\<open>DailySummarizer.generateDailySummary\<close>. Whatever the body throws is logged and thrown
  again.
\<close>

definition generateDailySummary_try ::
  "Env \<Rightarrow> World \<Rightarrow> string \<Rightarrow> int \<Rightarrow> (js_error + string) \<times> World" where
  "generateDailySummary_try env w chatId d =
     (case getChat (db w) chatId of
        None \<Rightarrow> (Inl (JsError (''Chat '' @ chatId @ '' not found'')), w)
      | Some chat \<Rightarrow>
          (let msgs = getMessagesForDate (server_offset_ms env) (db w) chatId d
           in if length (messages msgs) = 0
              then (Inr (generateEmptySummary (target_username chat)), w)
              else (let context =
                          \<lparr>chatTitle = title chat,
                           ctx_date = toLocaleDateString_ru (server_offset_ms env) d,
                           totalMessages = totalCount msgs,
                           targetUsername = target_username chat\<rparr>
                    in case getLLMProvider env w of
                         (p, w1) \<Rightarrow> provider_generateSummary env w1 p (messages msgs) context)))"

definition generateDailySummary ::
  "Env \<Rightarrow> World \<Rightarrow> string \<Rightarrow> int \<Rightarrow> (js_error + string) \<times> World" where
  "generateDailySummary env w chatId d =
     (case generateDailySummary_try env w chatId d of
        (Inl e, w1) \<Rightarrow>
          (Inl e, w1\<lparr>error_log := error_log w1 @ [''Failed to generate daily summary'']\<rparr>)
      | (Inr summary, w1) \<Rightarrow> (Inr summary, w1))"

text \<open>\<^verbatim>\<open>generatePreviewSummary\<close>: the summary of the day of the call.\<close>

definition generatePreviewSummary ::
  "Env \<Rightarrow> World \<Rightarrow> string \<Rightarrow> int \<Rightarrow> (js_error + string) \<times> World" where
  "generatePreviewSummary env w chatId now = generateDailySummary env w chatId now"

section \<open>Speech to text\<close>

text \<open>
  \<^verbatim>\<open>SpeechToTextService.processAudioMessage\<close>. Every throw inside is caught and turned into
  \<^verbatim>\<open>null\<close>.
\<close>

definition processAudioMessage ::
  "Env \<Rightarrow> World \<Rightarrow> string \<Rightarrow> string \<Rightarrow> string \<Rightarrow> int option \<Rightarrow> string option \<times> World" where
  "processAudioMessage env w fileId messageId filePath dur =
     (case getTranscript (db w) messageId fileId of
        Some existingTranscript \<Rightarrow> (Some (transcript_text existingTranscript), w)
      | None \<Rightarrow>
          (case stat_size env filePath of
             Inl e \<Rightarrow> (None, w\<lparr>error_log := error_log w @ [''Failed to process audio message'']\<rparr>)
           | Inr fileSize \<Rightarrow>
               if fileSize > fileSizeLimitBytes env then (None, w)
               else (case convertToMp3 env filePath of
                  Inl e \<Rightarrow>
                    (None, w\<lparr>error_log := error_log w @ [''Failed to process audio message'']\<rparr>)
                | Inr mp3Path \<Rightarrow>
                    (let w1 = w\<lparr>whisper_requests := whisper_requests w @ [mp3Path]\<rparr>;
                         result = whisper env mp3Path
                     in if truthy result
                        then (case insertTranscript (db w1)
                                     \<lparr>t_message_id = messageId, t_file_id = fileId,
                                      transcript_text = the result, language = Some ''ru'',
                                      duration = (if dur = Some 0 then None else dur)\<rparr> of
                                (Inl e, d1) \<Rightarrow>
                                  (None, w1\<lparr>db := d1, error_log := error_log w1 @
                                                  [''Failed to process audio message'']\<rparr>)
                              | (Inr row, d1) \<Rightarrow> (result, w1\<lparr>db := d1\<rparr>))
                        else (result, w1)))))"

section \<open>The scheduler\<close>

text \<open>
  \<^verbatim>\<open>SchedulerService.unscheduleChat\<close>: when the chat has an entry, \<^verbatim>\<open>job.stop()\<close> stops
  its task and \<^verbatim>\<open>job.destroy()\<close> throws, so that \<^verbatim>\<open>this.cronJobs.delete(chatId)\<close> is not
  reached and the entry stays.
\<close>

definition destroy_error :: js_error where
  "destroy_error = JsError ''job.destroy is not a function''"

definition unscheduleChat :: "World \<Rightarrow> string \<Rightarrow> (js_error + unit) \<times> World" where
  "unscheduleChat w chatId =
     (case cronJobs w chatId of
        None \<Rightarrow> (Inr (), w)
      | Some job \<Rightarrow>
          (Inl destroy_error,
           w\<lparr>running := filter (\<lambda>j. job_handle j \<noteq> job_handle job) (running w)\<rparr>))"

text \<open>
  The expression \<^verbatim>\<open>`${minutes} ${hours} * * *`\<close> of \<^verbatim>\<open>scheduleChat\<close>, from
  \<^verbatim>\<open>const [hours, minutes] = chat.report_time.split(':').map(Number)\<close>; a missing second
  part leaves \<^verbatim>\<open>minutes\<close> undefined.
\<close>

definition cronExpression :: "Env \<Rightarrow> Chat \<Rightarrow> string" where
  "cronExpression env chat =
     (let parts = split_on CHR '':'' (report_time chat);
          hours = (case parts of h # rest \<Rightarrow> Number_text env h | [] \<Rightarrow> ''undefined'');
          minutes = (case parts of h # m # rest \<Rightarrow> Number_text env m | _ \<Rightarrow> ''undefined'')
      in minutes @ '' '' @ hours @ '' * * *'')"

text \<open>The body of the \<^verbatim>\<open>try\<close> of \<^verbatim>\<open>scheduleChat\<close>, with what it throws.\<close>

definition scheduleChat_try :: "Env \<Rightarrow> World \<Rightarrow> Chat \<Rightarrow> (js_error + unit) \<times> World" where
  "scheduleChat_try env w chat =
     (case unscheduleChat w (chat_id chat) of
        (Inl e, w1) \<Rightarrow> (Inl e, w1)
      | (Inr u, w1) \<Rightarrow>
          (let expr = cronExpression env chat
           in if \<not> cron_validate env expr
              then (Inl (JsError (''Invalid cron expression: '' @ expr)), w1)
              else (case cron_schedule env expr (timezone chat) of
                      Some e \<Rightarrow> (Inl e, w1)
                    | None \<Rightarrow>
                        (let job = \<lparr>job_handle = next_handle w1, job_expression = expr,
                                    job_timezone = timezone chat, job_chat = chat\<rparr>;
                             w2 = w1\<lparr>next_handle := next_handle w1 + 1,
                                     cronJobs := (cronJobs w1)(chat_id chat \<mapsto> job)\<rparr>
                         in (Inr (), w2\<lparr>running := running w2 @ [job]\<rparr>)))))"

text \<open>\<^verbatim>\<open>SchedulerService.scheduleChat\<close>: the handler logs and returns.\<close>

definition scheduleChat :: "Env \<Rightarrow> World \<Rightarrow> Chat \<Rightarrow> (js_error + unit) \<times> World" where
  "scheduleChat env w chat =
     (case scheduleChat_try env w chat of
        (Inl e, w1) \<Rightarrow> (Inr (), w1\<lparr>error_log := error_log w1 @ [''Failed to schedule chat'']\<rparr>)
      | (Inr u, w1) \<Rightarrow> (Inr (), w1))"

text \<open>Registering one chat after the other, as \<^verbatim>\<open>initialize\<close> and repeated settings do.\<close>

fun scheduleChats :: "Env \<Rightarrow> World \<Rightarrow> Chat list \<Rightarrow> World" where
  "scheduleChats env w [] = w"
| "scheduleChats env w (chat # rest) = scheduleChats env (snd (scheduleChat env w chat)) rest"

text \<open>The live timers of a chat: the running tasks whose callback reports on it.\<close>

definition timers_of :: "World \<Rightarrow> string \<Rightarrow> Job list" where
  "timers_of w chatId = filter (\<lambda>j. chat_id (job_chat j) = chatId) (running w)"

text \<open>\<^verbatim>\<open>bot.telegram.sendMessage\<close>.\<close>

definition sendMessage :: "Env \<Rightarrow> World \<Rightarrow> string \<Rightarrow> string \<Rightarrow> (js_error + unit) \<times> World" where
  "sendMessage env w chatId text =
     (case telegram_send env (send_attempts w) chatId text of
        None \<Rightarrow> (Inr (), w\<lparr>send_attempts := send_attempts w + 1, sent := sent w @ [(chatId, text)]\<rparr>)
      | Some e \<Rightarrow> (Inl e, w\<lparr>send_attempts := send_attempts w + 1\<rparr>))"

text \<open>
  \<^verbatim>\<open>SchedulerService.executeDailyReport\<close> at the instant \<open>now\<close> of the fire: first the body
  of the \<^verbatim>\<open>try\<close>, then its handler, then the whole.
\<close>

definition fire_date :: "Env \<Rightarrow> int \<Rightarrow> int" where
  "fire_date env now = setDate_getDate_minus_1 (server_offset_ms env) now"

definition executeDailyReport_try :: "Env \<Rightarrow> World \<Rightarrow> Chat \<Rightarrow> int \<Rightarrow> (js_error + unit) \<times> World" where
  "executeDailyReport_try env w chat now =
     (let yesterday = fire_date env now;
          shouldGenerate =
            shouldGenerateSummary (server_offset_ms env) (db w) (chat_id chat) yesterday
      in if \<not> shouldGenerate then (Inr (), w)
         else (case generateDailySummary env w (chat_id chat) yesterday of
                 (Inl e, w1) \<Rightarrow> (Inl e, w1)
               | (Inr summary, w1) \<Rightarrow> sendMessage env w1 (chat_id chat) summary))"

definition error_notice :: "js_error \<Rightarrow> string" where
  "error_notice e =
     error_notice_prefix @ (case e of JsError msg \<Rightarrow> msg | NonError \<Rightarrow> unknown_error_text)"

definition executeDailyReport_catch :: "Env \<Rightarrow> World \<Rightarrow> Chat \<Rightarrow> js_error \<Rightarrow> (js_error + unit) \<times> World" where
  "executeDailyReport_catch env w chat e =
     (let w1 = w\<lparr>error_log := error_log w @ [''Failed to execute daily report'']\<rparr>
      in case sendMessage env w1 (chat_id chat) (error_notice e) of
           (Inl sendError, w2) \<Rightarrow>
             (Inr (), w2\<lparr>error_log := error_log w2 @ [''Failed to send error notification'']\<rparr>)
         | (Inr u, w2) \<Rightarrow> (Inr (), w2))"

definition executeDailyReport :: "Env \<Rightarrow> World \<Rightarrow> Chat \<Rightarrow> int \<Rightarrow> (js_error + unit) \<times> World" where
  "executeDailyReport env w chat now =
     (case executeDailyReport_try env w chat now of
        (Inl e, w1) \<Rightarrow> executeDailyReport_catch env w1 chat e
      | (Inr u, w1) \<Rightarrow> (Inr (), w1))"

text \<open>\<^verbatim>\<open>SchedulerService.executeManualReport\<close> with its optional date.\<close>

definition executeManualReport ::
  "Env \<Rightarrow> World \<Rightarrow> string \<Rightarrow> int option \<Rightarrow> int \<Rightarrow> (js_error + string) \<times> World" where
  "executeManualReport env w chatId d now =
     (case getChat (db w) chatId of
        None \<Rightarrow> (Inl (JsError (''Chat '' @ chatId @ '' not found'')), w)
      | Some chat \<Rightarrow>
          generateDailySummary env w chatId (case d of Some targetDate \<Rightarrow> targetDate | None \<Rightarrow> now))"

section \<open>The properties as the documentation words them\<close>

text \<open>
  The target date of a fire as the specification has it: yesterday in the zone of the
  chat, \<open>zone_off\<close> being the offset of that zone.
\<close>

definition yesterday_in_zone :: "int \<Rightarrow> int \<Rightarrow> int" where
  "yesterday_in_zone zone_off now = local_day zone_off now - 1"

text \<open>
  The window of a date as the specification has it, closed at both ends.
\<close>

definition in_closed_window :: "string \<Rightarrow> string \<Rightarrow> string \<Rightarrow> bool" where
  "in_closed_window lo hi ts = (lo \<le> ts \<and> ts \<le> hi)"

text \<open>
  The same window on instants: an instant is in the window of a date when it is not before
  00:00:00.000 and not after 23:59:59.999 of the calendar day of that date.
\<close>

definition in_day_window :: "int \<Rightarrow> int \<Rightarrow> int \<Rightarrow> bool" where
  "in_day_window off date t = (startOfDay off date \<le> t \<and> t \<le> endOfDay off date)"

text \<open>
  The scheduler is in order when every running task is the one its chat is mapped to, no
  task runs twice, and the handles still to be given out are fresh.
\<close>

definition sched_inv :: "World \<Rightarrow> bool" where
  "sched_inv w =
     (distinct (map job_handle (running w)) \<and>
      list_all (\<lambda>j. cronJobs w (chat_id (job_chat j)) = Some j \<and> job_handle j < next_handle w)
        (running w))"

text \<open>
  A registration is rejected when node-cron refuses the expression or the construction of
  the task throws.
\<close>

definition schedule_rejected :: "Env \<Rightarrow> Chat \<Rightarrow> bool" where
  "schedule_rejected env chat =
     (\<not> cron_validate env (cronExpression env chat) \<or>
      cron_schedule env (cronExpression env chat) (timezone chat) \<noteq> None)"

section \<open>A concrete environment and concrete data\<close>

text \<open>
  An instance of the environment for evaluating the functions on concrete inputs.
  \<open>Number_text_digits\<close> is \<^verbatim>\<open>Number\<close> on the strings of decimal digits (the empty string
  is 0); any other string is rendered \<^verbatim>\<open>NaN\<close> here, which is what \<^verbatim>\<open>Number\<close> gives unless
  the string has a sign, blanks, a fraction, an exponent, a radix prefix or spells
  \<^verbatim>\<open>Infinity\<close>. \<open>cron_validate_daily\<close> accepts the five-field expressions of the form the
  scheduler builds: a minute 0-59, an hour 0-23 and three stars. The zones are those of
  \<^verbatim>\<open>getAvailableTimezones\<close>; the offsets are given for the ones that have a fixed offset.
\<close>

fun dec_val :: "string \<Rightarrow> nat" where
  "dec_val s = foldl (\<lambda>acc c. 10 * acc + digit_val c) 0 s"

definition Number_text_digits :: "string \<Rightarrow> string" where
  "Number_text_digits s =
     (if s = [] then ''0''
      else if list_all is_digit s then nat_to_string (dec_val s) else ''NaN'')"

definition cron_field_ok :: "nat \<Rightarrow> string \<Rightarrow> bool" where
  "cron_field_ok hi f = (f \<noteq> [] \<and> list_all is_digit f \<and> dec_val f \<le> hi)"

definition cron_validate_daily :: "string \<Rightarrow> bool" where
  "cron_validate_daily e =
     (case split_on CHR '' '' e of
        [minute, hour, day_of_month, month, day_of_week] \<Rightarrow>
          cron_field_ok 59 minute \<and> cron_field_ok 23 hour \<and> day_of_month = ''*'' \<and>
          month = ''*'' \<and> day_of_week = ''*''
      | _ \<Rightarrow> False)"

definition getAvailableTimezones :: "string list" where
  "getAvailableTimezones =
     [''Europe/Berlin'', ''Europe/Moscow'', ''Europe/London'', ''Europe/Paris'',
      ''America/New_York'', ''America/Los_Angeles'', ''Asia/Tokyo'', ''Asia/Shanghai'', ''UTC'']"

definition fixed_zone_offset_ms :: "string \<Rightarrow> int option" where
  "fixed_zone_offset_ms =
     map_of [(''UTC'', 0), (''Europe/Moscow'', 10800000), (''Asia/Shanghai'', 28800000),
             (''Asia/Tokyo'', 32400000)]"

definition cron_schedule_zones :: "string \<Rightarrow> string \<Rightarrow> js_error option" where
  "cron_schedule_zones e tz =
     (if tz = [] \<or> tz \<in> set getAvailableTimezones then None
      else Some (JsError (''Invalid time zone specified: '' @ tz)))"

text \<open>
  A server on UTC whose generative backend cannot be reached and whose messages are all
  delivered.
\<close>

definition example_env :: Env where
  "example_env =
     \<lparr>server_offset_ms = 0,
      Number_text = Number_text_digits,
      cron_validate = cron_validate_daily,
      cron_schedule = cron_schedule_zones,
      models_list_ok = False,
      chat_completion = (\<lambda>msgs context. Inl (JsError ''Connection error.'')),
      telegram_send = (\<lambda>n chat text. None),
      stat_size = (\<lambda>path. Inr 4096),
      fileSizeLimitBytes = 20 * 1024 * 1024,
      convertToMp3 = (\<lambda>path. Inr (path @ ''.mp3'')),
      whisper = (\<lambda>path. Some ''hello'')\<rparr>"

text \<open>The same server on Central European Time, one hour east of UTC.\<close>

definition cet_env :: Env where
  "cet_env = example_env\<lparr>server_offset_ms := 3600000\<rparr>"

text \<open>A server on which neither the backend nor the delivery channel can be reached.\<close>

definition offline_env :: Env where
  "offline_env = example_env\<lparr>telegram_send := (\<lambda>n chat text. Some (JsError ''ETIMEDOUT''))\<rparr>"

text \<open>The chat and the users of \<^verbatim>\<open>seed.ts\<close>.\<close>

definition test_chat :: Chat where
  "test_chat =
     \<lparr>chat_id = ''-1001234567890'', title = ''Test Chat'', report_time = ''21:00'',
      timezone = ''Europe/Berlin'', target_username = ''@vlad311'', is_active = True\<rparr>"

definition user_vlad :: User where
  "user_vlad =
     \<lparr>user_id = ''123456789'', username = Some ''vlad311'', first_name = ''Vlad'',
      last_name = Some ''Test'', is_opted_out = False\<rparr>"

definition user_optout :: User where
  "user_optout =
     \<lparr>user_id = ''555666777'', username = Some ''optoutuser'', first_name = ''OptOut'',
      last_name = Some ''User'', is_opted_out = True\<rparr>"

definition text_message :: "string \<Rightarrow> string \<Rightarrow> string \<Rightarrow> Message" where
  "text_message mid uid stamp =
     \<lparr>m_chat_id = ''-1001234567890'', message_id = mid, m_user_id = uid, message_type = Text,
      content = Some ''hello'', file_id = None, reply_to_message_id = None, created_at = stamp\<rparr>"

definition seeded_db :: Database where
  "seeded_db = \<lparr>chats = [test_chat], users = [user_vlad, user_optout], db_messages = [],
                transcripts = []\<rparr>"

definition initial_world :: "Database \<Rightarrow> World" where
  "initial_world d =
     \<lparr>db = d, cronJobs = Map.empty, running = [], next_handle = 0, factory_instance = None,
      llmProvider = None, backend_requests = [], whisper_requests = [], send_attempts = 0,
      sent = [], error_log = []\<rparr>"

text \<open>Noon UTC of 15 January 2024, and 21:00 UTC of that day.\<close>

definition noon_2024_01_15 :: int where
  "noon_2024_01_15 = 1705320000000"

definition evening_2024_01_15 :: int where
  "evening_2024_01_15 = 1705352400000"

text \<open>
  The task a successful registration creates, and the data of the registrations
  evaluated below: the seeded chat with an hour that does not exist, with a one-digit
  minute, and the scheduler after the seeded chat has been registered once.
\<close>

definition new_job :: "Env \<Rightarrow> World \<Rightarrow> Chat \<Rightarrow> Job" where
  "new_job env w chat =
     \<lparr>job_handle = next_handle w, job_expression = cronExpression env chat,
      job_timezone = timezone chat, job_chat = chat\<rparr>"

definition chat_2500 :: Chat where
  "chat_2500 = test_chat\<lparr>report_time := ''25:00''\<rparr>"

definition chat_9_5 :: Chat where
  "chat_9_5 = test_chat\<lparr>report_time := ''9:5''\<rparr>"

definition registered_world :: World where
  "registered_world = snd (scheduleChat example_env (initial_world seeded_db) test_chat)"

text \<open>
  The rows of the window of a date: the joined rows of the chat between the two bounds
  \<^verbatim>\<open>getMessagesForDate\<close> hands to the store, in table order.
\<close>

definition window_rows :: "int \<Rightarrow> Database \<Rightarrow> string \<Rightarrow> int \<Rightarrow> (Message \<times> User) list" where
  "window_rows off d chatId date =
     filter (in_range chatId (toISOString (startOfDay off date)) (toISOString (endOfDay off date)))
       (joined_rows d)"

text \<open>
  Two messages stamped with the bounds of 15 January 2024 on a UTC server, and a day of
  three messages with the stamps the store gives at 09:00, 10:00 and 14:00 UTC of
  15 January 2024, the second by the user whose row has the opt-out flag.
\<close>

definition boundary_db :: Database where
  "boundary_db =
     seeded_db\<lparr>db_messages :=
       [text_message ''1'' ''123456789'' ''2024-01-15T00:00:00.000Z'',
        text_message ''2'' ''123456789'' ''2024-01-15T23:59:59.999Z'']\<rparr>"

definition chatty_db :: Database where
  "chatty_db =
     seeded_db\<lparr>db_messages :=
       [text_message ''1'' ''123456789'' ''2024-01-15 09:00:00'',
        text_message ''6'' ''555666777'' ''2024-01-15 10:00:00'',
        text_message ''2'' ''123456789'' ''2024-01-15 14:00:00'']\<rparr>"

text \<open>The transcript of \<^verbatim>\<open>seed.ts\<close>, a second one for the same pair, and a processed voice message.\<close>

definition seed_transcript :: Transcript where
  "seed_transcript =
     \<lparr>t_message_id = ''7'', t_file_id = ''BAADBAADrwADBREAAYag8mM'',
      transcript_text = ''first text'', language = Some ''ru'', duration = Some 5\<rparr>"

definition retry_transcript :: Transcript where
  "retry_transcript = seed_transcript\<lparr>transcript_text := ''second text''\<rparr>"

definition voice_world :: World where
  "voice_world =
     (initial_world seeded_db)
        \<lparr>db := seeded_db\<lparr>transcripts :=
                 [\<lparr>t_message_id = ''7'', t_file_id = ''file-1'', transcript_text = ''hello'',
                   language = Some ''ru'', duration = Some 5\<rparr>]\<rparr>,
         whisper_requests := [''temp/file-1.oga.mp3'']\<rparr>"

text \<open>
  Two states of the process are alike for the scheduler when they have the same timer map,
  the same running tasks and the same store; a step is quiet when, besides, it delivers
  nothing and attempts no delivery.
\<close>

definition same_sched :: "World \<Rightarrow> World \<Rightarrow> bool" where
  "same_sched w w' =
     (cronJobs w' = cronJobs w \<and> running w' = running w \<and> next_handle w' = next_handle w \<and>
      db w' = db w)"

definition quiet :: "World \<Rightarrow> World \<Rightarrow> bool" where
  "quiet w w' = (same_sched w w' \<and> sent w' = sent w \<and> send_attempts w' = send_attempts w)"

text \<open>
  The fire of 16 January 2024 at 21:00 Central European Time, with the seeded chat
  registered and the three messages of the day before in the store; a backend that passes
  the probe and fails on the request; a delivery channel whose first call fails; what the
  messages of the seeded user look like once processed, and the fallback digest of that
  day; a chat on Tokyo time that reports at 06:00.
\<close>

definition fire_2024_01_16 :: int where
  "fire_2024_01_16 = 1705435200000"

definition fire_world :: World where
  "fire_world = registered_world\<lparr>db := chatty_db\<rparr>"

definition flaky_env :: Env where
  "flaky_env = cet_env\<lparr>models_list_ok := True\<rparr>"

definition undelivered_env :: Env where
  "undelivered_env =
     cet_env\<lparr>telegram_send :=
       (\<lambda>n chat text. if n = 0 then Some (JsError ''502 Bad Gateway'') else None)\<rparr>"

definition vlad_says :: "string \<Rightarrow> string \<Rightarrow> ProcessedMessage" where
  "vlad_says mid stamp =
     \<lparr>pm_id = mid, pm_username = Some ''vlad311'', firstName = ''Vlad'', lastName = Some ''Test'',
      pm_type = Text, pm_content = Some ''hello'', transcript = None, timestamp = stamp,
      replyTo = None\<rparr>"

definition chatty_fallback_text :: string where
  "chatty_fallback_text =
     ''@vlad311'' @ fallback_heading @ statistics_label @ ''3'' @ statistics_suffix @
     fallback_voice_label @ ''0'' @ fallback_media_label @ ''0'' @ fallback_text_label @ ''2'' @
     fallback_footer"

definition tokyo_chat :: Chat where
  "tokyo_chat = test_chat\<lparr>report_time := ''06:00'', timezone := ''Asia/Tokyo''\<rparr>"

section \<open>The time format\<close>

lemma in_range_code:
  "(CHR ''0'' \<le> c \<and> c \<le> CHR ''1'') = (48 \<le> code c \<and> code c \<le> 49)"
  "(CHR ''0'' \<le> c \<and> c \<le> CHR ''3'') = (48 \<le> code c \<and> code c \<le> 51)"
  "(CHR ''0'' \<le> c \<and> c \<le> CHR ''5'') = (48 \<le> code c \<and> code c \<le> 53)"
  "(CHR ''0'' \<le> c \<and> c \<le> CHR ''9'') = (48 \<le> code c \<and> code c \<le> 57)"
  by (simp_all add: less_eq_char_def code_def)

lemma code_inj: "code c = code d \<Longrightarrow> c = d"
  unfolding code_def by (metis char_of_char)

lemma eq_two_code: "(c = CHR ''2'') = (code c = 50)"
proof
  assume "c = CHR ''2''"
  then show "code c = 50" by (simp add: code_def)
next
  assume "code c = 50"
  moreover have "code CHR ''2'' = 50" by (simp add: code_def)
  ultimately show "c = CHR ''2''" using code_inj by simp
qed

lemma rx_rests_char:
  "rx_rests (CharRange lo hi) (c # cs) = (if lo \<le> c \<and> c \<le> hi then [cs] else [])"
  "rx_rests (CharRange lo hi) [] = []"
  "rx_rests (Lit a) (c # cs) = (if c = a then [cs] else [])"
  "rx_rests (Lit a) [] = []"
  by simp_all

lemma validate_len4: "validateTimeFormat [h, c, m1, m2] = hhmm_spec [h, c, m1, m2]"
  unfolding validateTimeFormat_def rx_test_anchored_def timeRegex_def
  apply (simp add: is_digit_def digit_val_def in_range_code eq_two_code code_def[symmetric]
      rx_rests_char del: rx_rests.simps(1,2))
  by auto

lemma validate_len5:
  "validateTimeFormat [h1, h2, c, m1, m2] = hhmm_spec [h1, h2, c, m1, m2]"
  unfolding validateTimeFormat_def rx_test_anchored_def timeRegex_def
  apply (simp add: is_digit_def digit_val_def in_range_code eq_two_code code_def[symmetric]
      rx_rests_char del: rx_rests.simps(1,2))
  by auto

lemma validate_short: "length s < 4 \<Longrightarrow> \<not> validateTimeFormat s"
  unfolding validateTimeFormat_def rx_test_anchored_def timeRegex_def
  apply (cases s; simp)
  subgoal for a s1
    apply (cases s1; simp)
    subgoal for b s2
      by (cases s2; simp)
    done
  done

lemma validate_long: "\<not> validateTimeFormat (a # b # c # d # e # f # s)"
  unfolding validateTimeFormat_def rx_test_anchored_def timeRegex_def
  by simp

lemma hhmm_spec_length: "hhmm_spec s \<Longrightarrow> length s = 4 \<or> length s = 5"
  by (cases s rule: hhmm_spec.cases) simp_all

lemma len4: "length s = 4 \<Longrightarrow> \<exists>a b c d. s = [a, b, c, d]"
  by (auto simp: eval_nat_numeral length_Suc_conv)

lemma len5: "length s = 5 \<Longrightarrow> \<exists>a b c d e. s = [a, b, c, d, e]"
  by (auto simp: eval_nat_numeral length_Suc_conv)

lemma len6: "6 \<le> length s \<Longrightarrow> \<exists>a b c d e f r. s = a # b # c # d # e # f # r"
  by (auto simp: eval_nat_numeral Suc_le_length_iff)

lemma validate_is_hhmm: "validateTimeFormat s = hhmm_spec s"
proof -
  consider "length s < 4" | "length s = 4" | "length s = 5" | "6 \<le> length s"
    by linarith
  then show ?thesis
  proof cases
    case 1
    then show ?thesis using validate_short[of s] hhmm_spec_length[of s] by auto
  next
    case 2
    then show ?thesis using len4[of s] validate_len4 by auto
  next
    case 3
    then show ?thesis using len5[of s] validate_len5 by auto
  next
    case 4
    then show ?thesis using len6[of s] validate_long hhmm_spec_length[of s] by auto
  qed
qed

text \<open>
  C10. For every string, \<open>validateTimeFormat\<close> returns true exactly when the string is an
  hour 0-23 written with one or two digits, a colon, and a two-digit minute 00-59. In
  particular the single-digit hour \<^verbatim>\<open>9:05\<close> is accepted, \<^verbatim>\<open>24:00\<close> and \<^verbatim>\<open>12:60\<close> are not, and
  neither is a string with anything after the minute.
\<close>

theorem C10_validateTimeFormat_iff_hhmm:
  "validateTimeFormat s = hhmm_spec s
   \<and> validateTimeFormat ''9:05'' \<and> validateTimeFormat ''09:05''
   \<and> \<not> validateTimeFormat ''24:00'' \<and> \<not> validateTimeFormat ''12:60''
   \<and> \<not> validateTimeFormat (''9:05'' @ [CHR 0x0A])"
  by (simp add: validate_is_hhmm is_digit_def digit_val_def less_eq_char_def)

section \<open>Registration\<close>


text \<open>
  The three ways of a registration: the chat has an entry, and the registration ends at
  \<^verbatim>\<open>job.destroy()\<close>; it has none and node-cron refuses; it has none and the task is created
  and started.
\<close>

lemma scheduleChat_had:
  "cronJobs w (chat_id chat) = Some j \<Longrightarrow>
   snd (scheduleChat env w chat) =
     w\<lparr>running := filter (\<lambda>x. job_handle x \<noteq> job_handle j) (running w),
       error_log := error_log w @ [''Failed to schedule chat'']\<rparr>"
  by (simp add: scheduleChat_def scheduleChat_try_def unscheduleChat_def)

lemma scheduleChat_rejected:
  "cronJobs w (chat_id chat) = None \<Longrightarrow> schedule_rejected env chat \<Longrightarrow>
   snd (scheduleChat env w chat) = w\<lparr>error_log := error_log w @ [''Failed to schedule chat'']\<rparr>"
  by (auto simp: schedule_rejected_def scheduleChat_def scheduleChat_try_def unscheduleChat_def
      Let_def split: option.splits)

lemma scheduleChat_accepted:
  "cronJobs w (chat_id chat) = None \<Longrightarrow> \<not> schedule_rejected env chat \<Longrightarrow>
   snd (scheduleChat env w chat) =
     w\<lparr>next_handle := next_handle w + 1,
       cronJobs := (cronJobs w)(chat_id chat \<mapsto> new_job env w chat),
       running := running w @ [new_job env w chat]\<rparr>"
  by (simp add: schedule_rejected_def scheduleChat_def scheduleChat_try_def unscheduleChat_def
      Let_def new_job_def split: option.splits)




lemma scheduleChat_had_cronJobs:
  "cronJobs w (chat_id chat) \<noteq> None \<Longrightarrow> cronJobs (snd (scheduleChat env w chat)) = cronJobs w"
  by (cases "cronJobs w (chat_id chat)") (simp_all add: scheduleChat_had)

lemma scheduleChat_had_log:
  "cronJobs w (chat_id chat) \<noteq> None \<Longrightarrow>
   error_log (snd (scheduleChat env w chat)) = error_log w @ [''Failed to schedule chat'']"
  by (cases "cronJobs w (chat_id chat)") (simp_all add: scheduleChat_had)

lemma no_entry_no_timer: "sched_inv w \<Longrightarrow> cronJobs w c = None \<Longrightarrow> timers_of w c = []"
  by (auto simp: sched_inv_def timers_of_def list_all_iff filter_empty_conv)

lemma stopped_no_timer:
  "sched_inv w \<Longrightarrow> cronJobs w c = Some j \<Longrightarrow>
   filter (\<lambda>x. chat_id (job_chat x) = c) (filter (\<lambda>x. job_handle x \<noteq> job_handle j) (running w)) = []"
  by (auto simp: sched_inv_def list_all_iff filter_empty_conv)

lemma inv_scheduleChat: "sched_inv w \<Longrightarrow> sched_inv (snd (scheduleChat env w chat))"
proof -
  assume inv: "sched_inv w"
  show ?thesis
  proof (cases "cronJobs w (chat_id chat)")
    case (Some j)
    show ?thesis
      unfolding scheduleChat_had[OF Some]
      using inv by (auto simp: sched_inv_def list_all_iff distinct_map_filter)
  next
    case None
    show ?thesis
    proof (cases "schedule_rejected env chat")
      case True
      show ?thesis
        unfolding scheduleChat_rejected[OF None True] using inv by (simp add: sched_inv_def)
    next
      case False
      have fresh: "\<forall>x \<in> set (running w). job_handle x < next_handle w \<and>
          chat_id (job_chat x) \<noteq> chat_id chat \<and> cronJobs w (chat_id (job_chat x)) = Some x"
        using inv None by (auto simp: sched_inv_def list_all_iff)
      have d: "distinct (map job_handle (running w))" using inv by (simp add: sched_inv_def)
      show ?thesis
        unfolding scheduleChat_accepted[OF None False] sched_inv_def
        using fresh d by (auto simp: list_all_iff new_job_def)
    qed
  qed
qed

lemma timers_scheduleChat:
  "sched_inv w \<Longrightarrow>
   timers_of (snd (scheduleChat env w chat)) (chat_id chat) =
     (if cronJobs w (chat_id chat) = None \<and> \<not> schedule_rejected env chat
      then [new_job env w chat] else [])"
proof -
  assume inv: "sched_inv w"
  show ?thesis
  proof (cases "cronJobs w (chat_id chat)")
    case (Some j)
    show ?thesis
      unfolding scheduleChat_had[OF Some]
      using stopped_no_timer[OF inv Some] Some by (simp add: timers_of_def)
  next
    case None
    have none: "filter (\<lambda>x. chat_id (job_chat x) = chat_id chat) (running w) = []"
      using no_entry_no_timer[OF inv None] by (simp add: timers_of_def)
    show ?thesis
    proof (cases "schedule_rejected env chat")
      case True
      show ?thesis
        unfolding scheduleChat_rejected[OF None True] using none True by (simp add: timers_of_def)
    next
      case False
      show ?thesis
        unfolding scheduleChat_accepted[OF None False]
        using none None False by (simp add: timers_of_def new_job_def)
    qed
  qed
qed

lemma inv_at_most_one:
  assumes inv: "sched_inv w"
  shows "length (timers_of w c) \<le> 1"
proof (cases "timers_of w c")
  case Nil
  then show ?thesis by simp
next
  case (Cons j js)
  have mapped: "\<forall>x \<in> set (timers_of w c). cronJobs w c = Some x"
    using inv by (auto simp: sched_inv_def timers_of_def list_all_iff)
  have "distinct (map job_handle (timers_of w c))"
    using inv unfolding sched_inv_def timers_of_def by (simp add: distinct_map_filter)
  then have d: "distinct (timers_of w c)"
    by (simp add: distinct_map)
  have "js = []"
  proof (cases js)
    case Nil
    then show ?thesis .
  next
    case (Cons k ks)
    have "j \<in> set (timers_of w c)" "k \<in> set (timers_of w c)"
      using \<open>timers_of w c = j # js\<close> Cons by simp_all
    then have "Some j = Some k"
      using mapped by metis
    then have "j = k" by simp
    then show ?thesis using d \<open>timers_of w c = j # js\<close> Cons by simp
  qed
  then show ?thesis using Cons by simp
qed

lemma scheduleChats_snoc:
  "scheduleChats env w (cs @ [c]) = snd (scheduleChat env (scheduleChats env w cs) c)"
  by (induction cs arbitrary: w) simp_all

lemma inv_scheduleChats: "sched_inv w \<Longrightarrow> sched_inv (scheduleChats env w cs)"
  by (induction cs arbitrary: w) (simp_all add: inv_scheduleChat)

lemma entry_stays:
  "cronJobs w cid \<noteq> None \<Longrightarrow> list_all (\<lambda>c. chat_id c = cid) cs \<Longrightarrow>
   cronJobs (scheduleChats env w cs) = cronJobs w"
proof (induction cs arbitrary: w)
  case Nil
  then show ?case by simp
next
  case (Cons c cs)
  have step: "cronJobs (snd (scheduleChat env w c)) = cronJobs w"
    using Cons.prems by (simp add: scheduleChat_had_cronJobs)
  then have "cronJobs (scheduleChats env (snd (scheduleChat env w c)) cs) =
      cronJobs (snd (scheduleChat env w c))"
    using Cons.prems by (intro Cons.IH) simp_all
  then show ?case using step by simp
qed

lemma registered_again:
  assumes "sched_inv w" "cronJobs w cid \<noteq> None" "cs \<noteq> []" "list_all (\<lambda>c. chat_id c = cid) cs"
  shows "timers_of (scheduleChats env w cs) cid = []"
proof -
  obtain bs c where cs: "cs = bs @ [c]"
    using assms(3) by (metis append_butlast_last_id)
  let ?v = "scheduleChats env w bs"
  have c: "chat_id c = cid" and bs: "list_all (\<lambda>c. chat_id c = cid) bs"
    using assms(4) by (simp_all add: cs)
  have "sched_inv ?v" using assms(1) by (rule inv_scheduleChats)
  moreover have "cronJobs ?v (chat_id c) \<noteq> None"
    using entry_stays[OF assms(2) bs, of env] assms(2) c by simp
  ultimately have "timers_of (snd (scheduleChat env ?v c)) (chat_id c) = []"
    by (simp add: timers_scheduleChat)
  then show ?thesis by (simp add: cs scheduleChats_snoc c)
qed

lemma inv_initial: "sched_inv (initial_world d)"
  by (simp add: sched_inv_def initial_world_def)

subsection \<open>The registrations evaluated\<close>

lemmas digit_eval = is_digit_def less_eq_char_def digit_val_def nat_to_string.simps

lemma expr_examples:
  "cronExpression example_env test_chat = ''0 21 * * *''"
  "cronExpression example_env chat_2500 = ''0 25 * * *''"
  "cronExpression example_env chat_9_5 = ''5 9 * * *''"
  by (simp_all add: cronExpression_def example_env_def chat_2500_def chat_9_5_def test_chat_def
      Number_text_digits_def digit_eval)

lemma validate_examples:
  "cron_validate example_env ''0 21 * * *''"
  "\<not> cron_validate example_env ''0 25 * * *''"
  "cron_validate example_env ''5 9 * * *''"
  by (simp_all add: example_env_def cron_validate_daily_def cron_field_ok_def digit_eval)

lemma zone_examples:
  "cron_schedule example_env e (timezone test_chat) = None"
  "cron_schedule example_env e (timezone chat_9_5) = None"
  by (simp_all add: example_env_def cron_schedule_zones_def getAvailableTimezones_def
      test_chat_def chat_9_5_def)


lemma accepted_examples:
  "\<not> schedule_rejected example_env test_chat"
  "\<not> schedule_rejected example_env chat_9_5"
  by (simp_all add: schedule_rejected_def expr_examples validate_examples zone_examples)



lemma inv_registered: "sched_inv registered_world"
  unfolding registered_world_def by (intro inv_scheduleChat inv_initial)

lemma no_entry_initial: "cronJobs (initial_world d) c = None"
  by (simp add: initial_world_def)

lemma timers_registered:
  "timers_of registered_world (chat_id test_chat) =
     [new_job example_env (initial_world seeded_db) test_chat]"
  unfolding registered_world_def
  using timers_scheduleChat[OF inv_initial, where env = example_env and chat = test_chat and
      d1 = seeded_db]
  by (simp add: accepted_examples no_entry_initial)

lemma entry_registered:
  "cronJobs registered_world (chat_id test_chat) =
     Some (new_job example_env (initial_world seeded_db) test_chat)"
  unfolding registered_world_def
  by (simp add: scheduleChat_accepted[OF no_entry_initial accepted_examples(1)])

lemma log_registered: "error_log registered_world = []"
  unfolding registered_world_def scheduleChat_accepted[OF no_entry_initial accepted_examples(1)]
  by (simp add: initial_world_def)




text \<open>
  C4. A registration is meant to replace the timer of its chat: it calls
  \<^verbatim>\<open>unscheduleChat\<close> first and then creates and starts a new task. But \<^verbatim>\<open>unscheduleChat\<close>
  stops the task of a chat that has an entry and then throws at \<^verbatim>\<open>job.destroy()\<close>, inside
  the \<^verbatim>\<open>try\<close> of \<^verbatim>\<open>scheduleChat\<close>: the entry stays, no new task is created, and the failure is
  logged. So once a chat has an entry, after any further registrations of it the chat has
  no live timer, not one. Timers are never stacked: in a scheduler in order (the empty
  one is), after any registrations every chat has at most one.
\<close>

theorem C4_registering_again_leaves_no_timer:
  assumes "sched_inv w" and "cronJobs w cid \<noteq> None" and "cs \<noteq> []"
    and "list_all (\<lambda>c. chat_id c = cid) cs"
  shows "timers_of (scheduleChats env w cs) cid = [] \<and>
         cronJobs (scheduleChats env w cs) = cronJobs w \<and>
         error_log (snd (scheduleChat env w (hd cs))) = error_log w @ [''Failed to schedule chat''] \<and>
         length (timers_of (scheduleChats env w ds) c') \<le> 1"
proof -
  have "chat_id (hd cs) = cid"
    using assms(3,4) by (cases cs) simp_all
  then have "error_log (snd (scheduleChat env w (hd cs))) =
      error_log w @ [''Failed to schedule chat'']"
    using assms(2) by (simp add: scheduleChat_had_log)
  moreover have "length (timers_of (scheduleChats env w ds) c') \<le> 1"
    using assms(1) inv_scheduleChats inv_at_most_one by blast
  ultimately show ?thesis
    using registered_again[OF assms, of env] entry_stays[OF assms(2,4), of env] by simp
qed

theorem C4_registering_again_leaves_no_timer_witness:
  "sched_inv registered_world \<and>
   \<not> schedule_rejected example_env test_chat \<and>
   registered_world = scheduleChats example_env (initial_world seeded_db) [test_chat] \<and>
   length (timers_of registered_world (chat_id test_chat)) = 1 \<and>
   cronJobs registered_world (chat_id test_chat) =
     Some (new_job example_env (initial_world seeded_db) test_chat) \<and>
   length (timers_of (scheduleChats example_env registered_world [test_chat])
             (chat_id test_chat)) = 0 \<and>
   cronJobs (scheduleChats example_env registered_world [test_chat]) (chat_id test_chat) =
     Some (new_job example_env (initial_world seeded_db) test_chat) \<and>
   error_log (scheduleChats example_env registered_world [test_chat]) =
     [''Failed to schedule chat''] \<and>
   length (timers_of (scheduleChats example_env (initial_world seeded_db) [test_chat, test_chat])
             (chat_id test_chat)) = 0"
  using C4_registering_again_leaves_no_timer[OF inv_registered, where cid = "chat_id test_chat"
      and cs = "[test_chat]" and env = example_env]
  by (simp add: inv_registered accepted_examples timers_registered entry_registered
      log_registered registered_world_def[symmetric])

section \<open>Dates and stamps evaluated\<close>

lemma replicate_eval:
  "replicate 1 x = [x]" "replicate 2 x = [x, x]" "replicate 3 x = [x, x, x]"
  by (simp_all add: eval_nat_numeral)

lemmas civil_eval = civil_from_days_def civil_from_doe_def civil_of_def civil_year_def
  civil_day_def civil_month_def month_from_march_def day_of_year_def year_of_era_def

lemmas text_eval = toISOString_def date_text_def year_text_def int_text_def pad_start_def
  nat_to_string.simps clock_text_def ms_per_day_def CURRENT_TIMESTAMP_def
  toLocaleDateString_ru_def replicate_eval

lemmas day_eval = startOfDay_def endOfDay_def setHours_def local_day_def local_time_of_day_def
  setDate_getDate_minus_1_def

lemma iso_examples:
  "toISOString (startOfDay 0 noon_2024_01_15) = ''2024-01-15T00:00:00.000Z''"
  "toISOString (endOfDay 0 noon_2024_01_15) = ''2024-01-15T23:59:59.999Z''"
  "toISOString (startOfDay 3600000 noon_2024_01_15) = ''2024-01-14T23:00:00.000Z''"
  "toISOString (endOfDay 3600000 noon_2024_01_15) = ''2024-01-15T22:59:59.999Z''"
  "CURRENT_TIMESTAMP (noon_2024_01_15 - 7200000) = ''2024-01-15 10:00:00''"
  by (simp_all add: day_eval noon_2024_01_15_def civil_eval text_eval)

section \<open>The window of a date\<close>

lemma getMessagesForDateRange_half_open:
  "j \<in> set (getMessagesForDateRange d c lo hi) \<longleftrightarrow>
     j \<in> set (joined_rows d) \<and> m_chat_id (fst j) = c \<and> lo \<le> created_at (fst j) \<and>
     created_at (fst j) < hi"
  by (auto simp: getMessagesForDateRange_def in_range_def)

lemma text_message_sel:
  "m_chat_id (text_message m u s) = ''-1001234567890''"
  "message_id (text_message m u s) = m"
  "m_user_id (text_message m u s) = u"
  "message_type (text_message m u s) = Text"
  "content (text_message m u s) = Some ''hello''"
  "file_id (text_message m u s) = None"
  "reply_to_message_id (text_message m u s) = None"
  "created_at (text_message m u s) = s"
  by (simp_all add: text_message_def)

lemma joined_boundary:
  "joined_rows boundary_db =
     [(text_message ''1'' ''123456789'' ''2024-01-15T00:00:00.000Z'', user_vlad),
      (text_message ''2'' ''123456789'' ''2024-01-15T23:59:59.999Z'', user_vlad)]"
  by (simp add: joined_rows_def boundary_db_def seeded_db_def text_message_def user_vlad_def
      user_optout_def)

lemma range_boundary:
  "getMessagesForDateRange boundary_db ''-1001234567890'' ''2024-01-15T00:00:00.000Z''
     ''2024-01-15T23:59:59.999Z'' =
   [(text_message ''1'' ''123456789'' ''2024-01-15T00:00:00.000Z'', user_vlad)]"
  by (simp add: getMessagesForDateRange_def joined_boundary in_range_def text_message_def
      less_char_def less_eq_char_def)

text \<open>
  The stamps the store itself writes are \<^verbatim>\<open>CURRENT_TIMESTAMP\<close> texts, with a blank where the
  bounds have a \<^verbatim>\<open>T\<close>. A message inserted at 10:00 UTC of 15 January 2024 is stamped
  \<^verbatim>\<open>2024-01-15 10:00:00\<close>, which as text lies before the start of that date's window on a
  UTC server, and inside the window on a server one hour east.
\<close>

lemma inserted_message_stamp:
  "insertMessage (noon_2024_01_15 - 7200000) seeded_db (text_message ''3'' ''123456789'' []) =
     (Inr (text_message ''3'' ''123456789'' ''2024-01-15 10:00:00''),
      seeded_db\<lparr>db_messages := [text_message ''3'' ''123456789'' ''2024-01-15 10:00:00'']\<rparr>)"
  by (simp add: insertMessage_def iso_examples seeded_db_def text_message_def getChat_def
      getUser_def test_chat_def user_vlad_def Let_def)

lemma inserted_message_joined:
  "joined_rows (seeded_db\<lparr>db_messages := [text_message ''3'' ''123456789'' ''2024-01-15 10:00:00'']\<rparr>) =
     [(text_message ''3'' ''123456789'' ''2024-01-15 10:00:00'', user_vlad)]"
  by (simp add: joined_rows_def seeded_db_def text_message_def user_vlad_def user_optout_def)

lemma inserted_message_ranges:
  "getMessagesForDateRange
     (seeded_db\<lparr>db_messages := [text_message ''3'' ''123456789'' ''2024-01-15 10:00:00'']\<rparr>)
     ''-1001234567890'' ''2024-01-15T00:00:00.000Z'' ''2024-01-15T23:59:59.999Z'' = []"
  "getMessagesForDateRange
     (seeded_db\<lparr>db_messages := [text_message ''3'' ''123456789'' ''2024-01-15 10:00:00'']\<rparr>)
     ''-1001234567890'' ''2024-01-14T23:00:00.000Z'' ''2024-01-15T22:59:59.999Z'' =
     [(text_message ''3'' ''123456789'' ''2024-01-15 10:00:00'', user_vlad)]"
  unfolding getMessagesForDateRange_def inserted_message_joined
  by (simp_all add: in_range_def text_message_sel less_char_def less_eq_char_def)

lemma inserted_message_window:
  "messages (getMessagesForDate 0
      (snd (insertMessage (noon_2024_01_15 - 7200000) seeded_db
              (text_message ''3'' ''123456789'' [])))
      ''-1001234567890'' noon_2024_01_15) = [] \<and>
   map pm_id (messages (getMessagesForDate 3600000
      (snd (insertMessage (noon_2024_01_15 - 7200000) seeded_db
              (text_message ''3'' ''123456789'' [])))
      ''-1001234567890'' noon_2024_01_15)) = [''3'']"
  unfolding inserted_message_stamp getMessagesForDate_def iso_examples
  by (simp add: inserted_message_ranges user_vlad_def process_row_def text_message_sel)

text \<open>
  C2. The window is meant to be closed at both ends, and \<^verbatim>\<open>getMessagesForDate\<close> sets its end
  to 23:59:59.999 of the date; but the query compares with \<^verbatim>\<open>created_at < ?\<close>. On a UTC
  server, for 15 January 2024, the row stamped with the start of the window is selected
  and the row stamped with its end, though inside the closed window, is not: it is neither
  among the messages nor counted. Nor is, on that server, a message the store itself has
  stamped at 10:00 of that day.
\<close>

theorem C2_window_end_left_out:
  "dateRange_start (getMessagesForDate 0 boundary_db ''-1001234567890'' noon_2024_01_15) =
     ''2024-01-15T00:00:00.000Z'' \<and>
   dateRange_end (getMessagesForDate 0 boundary_db ''-1001234567890'' noon_2024_01_15) =
     ''2024-01-15T23:59:59.999Z'' \<and>
   in_closed_window ''2024-01-15T00:00:00.000Z'' ''2024-01-15T23:59:59.999Z''
     ''2024-01-15T23:59:59.999Z'' \<and>
   map pm_id (messages (getMessagesForDate 0 boundary_db ''-1001234567890'' noon_2024_01_15)) =
     [''1''] \<and>
   totalCount (getMessagesForDate 0 boundary_db ''-1001234567890'' noon_2024_01_15) = 1 \<and>
   fst (insertMessage (noon_2024_01_15 - 7200000) seeded_db (text_message ''3'' ''123456789'' [])) =
     Inr (text_message ''3'' ''123456789'' ''2024-01-15 10:00:00'') \<and>
   messages (getMessagesForDate 0
      (snd (insertMessage (noon_2024_01_15 - 7200000) seeded_db
              (text_message ''3'' ''123456789'' [])))
      ''-1001234567890'' noon_2024_01_15) = []"
  using inserted_message_window
  by (simp add: getMessagesForDate_def iso_examples range_boundary user_vlad_def process_row_def
      text_message_sel in_closed_window_def less_char_def less_eq_char_def
      inserted_message_stamp)

section \<open>Opted-out authors\<close>

lemma window_chatty:
  "window_rows 3600000 chatty_db ''-1001234567890'' noon_2024_01_15 =
     [(text_message ''1'' ''123456789'' ''2024-01-15 09:00:00'', user_vlad),
      (text_message ''6'' ''555666777'' ''2024-01-15 10:00:00'', user_optout),
      (text_message ''2'' ''123456789'' ''2024-01-15 14:00:00'', user_vlad)]"
  by (simp add: window_rows_def iso_examples joined_rows_def chatty_db_def seeded_db_def
      text_message_def user_vlad_def user_optout_def in_range_def less_char_def less_eq_char_def)

lemma window_chatty_utc:
  "window_rows 0 chatty_db ''-1001234567890'' noon_2024_01_15 = []"
  by (simp add: window_rows_def iso_examples joined_rows_def chatty_db_def seeded_db_def
      text_message_def user_vlad_def user_optout_def in_range_def less_char_def less_eq_char_def)

lemma totalCount_window:
  "totalCount (getMessagesForDate off d c t) = length (window_rows off d c t)"
  by (simp add: getMessagesForDate_def getMessagesForDateRange_def window_rows_def Let_def)

lemma messages_window:
  "messages (getMessagesForDate off d c t) =
     map (process_row d)
       (sort_key (\<lambda>r. created_at (fst r))
          (filter (\<lambda>r. \<not> is_opted_out (snd r)) (window_rows off d c t)))"
  by (simp add: getMessagesForDate_def getMessagesForDateRange_def window_rows_def Let_def
      filter_sort)

lemma chatty_stamps:
  "CURRENT_TIMESTAMP (noon_2024_01_15 - 10800000) = ''2024-01-15 09:00:00''"
  "CURRENT_TIMESTAMP (noon_2024_01_15 - 7200000) = ''2024-01-15 10:00:00''"
  "CURRENT_TIMESTAMP (noon_2024_01_15 + 7200000) = ''2024-01-15 14:00:00''"
  by (simp_all add: noon_2024_01_15_def civil_eval text_eval)

lemma chatty_instants:
  "in_day_window 0 noon_2024_01_15 (noon_2024_01_15 - 10800000)"
  "in_day_window 0 noon_2024_01_15 (noon_2024_01_15 - 7200000)"
  "in_day_window 0 noon_2024_01_15 (noon_2024_01_15 + 7200000)"
  "in_day_window 3600000 noon_2024_01_15 (noon_2024_01_15 - 10800000)"
  "in_day_window 3600000 noon_2024_01_15 (noon_2024_01_15 - 7200000)"
  "in_day_window 3600000 noon_2024_01_15 (noon_2024_01_15 + 7200000)"
  by (simp_all add: in_day_window_def day_eval noon_2024_01_15_def ms_per_day_def)

lemma chatty_authors:
  "map (\<lambda>m. (message_id m, m_user_id m, created_at m)) (db_messages chatty_db) =
     [(''1'', ''123456789'', ''2024-01-15 09:00:00''),
      (''6'', ''555666777'', ''2024-01-15 10:00:00''),
      (''2'', ''123456789'', ''2024-01-15 14:00:00'')]"
  "map_option is_opted_out (getUser chatty_db ''123456789'') = Some False"
  "map_option is_opted_out (getUser chatty_db ''555666777'') = Some True"
  by (simp_all add: chatty_db_def seeded_db_def text_message_sel getUser_def user_vlad_def
      user_optout_def)

lemma range_chatty:
  "getMessagesForDateRange chatty_db ''-1001234567890'' ''2024-01-14T23:00:00.000Z''
     ''2024-01-15T22:59:59.999Z'' =
     [(text_message ''1'' ''123456789'' ''2024-01-15 09:00:00'', user_vlad),
      (text_message ''6'' ''555666777'' ''2024-01-15 10:00:00'', user_optout),
      (text_message ''2'' ''123456789'' ''2024-01-15 14:00:00'', user_vlad)]"
  unfolding getMessagesForDateRange_def
  using window_chatty unfolding window_rows_def iso_examples
  by (simp add: text_message_sel less_char_def less_eq_char_def)

lemma day_chatty:
  "getMessagesForDate 3600000 chatty_db ''-1001234567890'' noon_2024_01_15 =
     \<lparr>messages = [vlad_says ''1'' ''2024-01-15 09:00:00'', vlad_says ''2'' ''2024-01-15 14:00:00''],
      totalCount = 3, dateRange_start = ''2024-01-14T23:00:00.000Z'',
      dateRange_end = ''2024-01-15T22:59:59.999Z''\<rparr>"
  unfolding getMessagesForDate_def iso_examples range_chatty
  by (simp add: process_row_def text_message_sel user_vlad_def user_optout_def vlad_says_def
      truthy_def)

lemma chatty_ids:
  "map pm_id (messages (getMessagesForDate 3600000 chatty_db ''-1001234567890'' noon_2024_01_15)) =
     [''1'', ''2'']"
  "totalCount (getMessagesForDate 3600000 chatty_db ''-1001234567890'' noon_2024_01_15) = 3"
  unfolding day_chatty by (simp_all add: vlad_says_def)

lemma chatty_utc:
  "totalCount (getMessagesForDate 0 chatty_db ''-1001234567890'' noon_2024_01_15) = 0"
  "messages (getMessagesForDate 0 chatty_db ''-1001234567890'' noon_2024_01_15) = []"
  by (simp_all add: totalCount_window messages_window window_chatty_utc)

text \<open>
  C3. \<^verbatim>\<open>getMessagesForDate\<close> leaves out the rows whose author has the flag in the users
  table when the digest is generated, and counts them: with the three messages of
  15 January 2024 on a server on Central European Time, the message of the user whose row
  has the flag is not among the messages and the count is 3. But opting out does not set
  the flag: \<^verbatim>\<open>setUserOptOut\<close> throws when it binds its boolean and the table is as it was, so
  after the other author of that day has opted out, that author's two messages are still
  among the messages. Nor is the count that of the messages of the window: on a UTC server
  the same three messages, stamped by the store at instants inside the window of the date,
  are not counted at all.
\<close>

theorem C3_opt_out_not_recorded:
  "map (\<lambda>m. (message_id m, m_user_id m, created_at m)) (db_messages chatty_db) =
     [(''1'', ''123456789'', CURRENT_TIMESTAMP (noon_2024_01_15 - 10800000)),
      (''6'', ''555666777'', CURRENT_TIMESTAMP (noon_2024_01_15 - 7200000)),
      (''2'', ''123456789'', CURRENT_TIMESTAMP (noon_2024_01_15 + 7200000))] \<and>
   map_option is_opted_out (getUser chatty_db ''123456789'') = Some False \<and>
   map_option is_opted_out (getUser chatty_db ''555666777'') = Some True \<and>
   in_day_window 3600000 noon_2024_01_15 (noon_2024_01_15 - 10800000) \<and>
   in_day_window 3600000 noon_2024_01_15 (noon_2024_01_15 - 7200000) \<and>
   in_day_window 3600000 noon_2024_01_15 (noon_2024_01_15 + 7200000) \<and>
   map pm_id (messages (getMessagesForDate 3600000 chatty_db ''-1001234567890'' noon_2024_01_15)) =
     [''1'', ''2''] \<and>
   totalCount (getMessagesForDate 3600000 chatty_db ''-1001234567890'' noon_2024_01_15) = 3 \<and>
   fst (setUserOptOut chatty_db ''123456789'' True) = Inl bind_error \<and>
   map_option is_opted_out (getUser (snd (setUserOptOut chatty_db ''123456789'' True))
     ''123456789'') = Some False \<and>
   map pm_id (messages (getMessagesForDate 3600000
      (snd (setUserOptOut chatty_db ''123456789'' True)) ''-1001234567890'' noon_2024_01_15)) =
     [''1'', ''2''] \<and>
   in_day_window 0 noon_2024_01_15 (noon_2024_01_15 - 10800000) \<and>
   in_day_window 0 noon_2024_01_15 (noon_2024_01_15 - 7200000) \<and>
   in_day_window 0 noon_2024_01_15 (noon_2024_01_15 + 7200000) \<and>
   totalCount (getMessagesForDate 0 chatty_db ''-1001234567890'' noon_2024_01_15) = 0 \<and>
   messages (getMessagesForDate 0 chatty_db ''-1001234567890'' noon_2024_01_15) = []"
  unfolding chatty_stamps
  by (simp add: chatty_authors chatty_instants chatty_ids chatty_utc setUserOptOut_def)

section \<open>Transcripts\<close>

lemma find_append_new: "find P xs = None \<Longrightarrow> P x \<Longrightarrow> find P (xs @ [x]) = Some x"
  by (induction xs) (auto split: if_splits)

lemma insertTranscript_new:
  "getTranscript d (t_message_id t) (t_file_id t) = None \<Longrightarrow>
   insertTranscript d t = (Inr t, d\<lparr>transcripts := transcripts d @ [t]\<rparr>) \<and>
   getTranscript (snd (insertTranscript d t)) (t_message_id t) (t_file_id t) = Some t"
  by (simp add: insertTranscript_def getTranscript_def find_append_new)

lemma insertTranscript_existing:
  "getTranscript d (t_message_id t) (t_file_id t) = Some r \<Longrightarrow>
   fst (insertTranscript d t) =
     Inl (JsError ''UNIQUE constraint failed: transcripts.message_id, transcripts.file_id'') \<and>
   snd (insertTranscript d t) = d"
  by (simp add: insertTranscript_def)

lemma getTranscript_after_insert:
  "\<exists>r. getTranscript (snd (insertTranscript d t)) (t_message_id t) (t_file_id t) = Some r"
proof (cases "getTranscript d (t_message_id t) (t_file_id t)")
  case None
  then show ?thesis using insertTranscript_new[of d t] by blast
next
  case (Some r)
  then show ?thesis using insertTranscript_existing[of d t r] by simp
qed

lemma processAudioMessage_existing:
  "getTranscript (db w) messageId fileId = Some r \<Longrightarrow>
   processAudioMessage env w fileId messageId filePath dur = (Some (transcript_text r), w)"
  by (simp add: processAudioMessage_def)

lemma processAudioMessage_truthy_stored:
  assumes "processAudioMessage env w fileId messageId filePath dur = (Some s, w')" "s \<noteq> []"
  shows "\<exists>r. getTranscript (db w') messageId fileId = Some r \<and> transcript_text r = s"
proof (cases "getTranscript (db w) messageId fileId")
  case (Some r)
  then show ?thesis using assms by (auto simp: processAudioMessage_def)
next
  case None
  let ?t = "\<lparr>t_message_id = messageId, t_file_id = fileId, transcript_text = s,
             language = Some ''ru'', duration = (if dur = Some 0 then None else dur)\<rparr>"
  have new: "getTranscript (db w) (t_message_id ?t) (t_file_id ?t) = None"
    using None by simp
  show ?thesis
    using assms None insertTranscript_new[OF new]
    by (auto simp: processAudioMessage_def Let_def truthy_def
        split: sum.splits if_splits option.splits prod.splits)
qed

lemma first_processing:
  "processAudioMessage example_env (initial_world seeded_db) ''file-1'' ''7''
     ''temp/file-1.oga'' (Some 5) = (Some ''hello'', voice_world)"
  by (simp add: processAudioMessage_def getTranscript_def initial_world_def seeded_db_def
      example_env_def insertTranscript_def truthy_def voice_world_def)

lemma seed_insert:
  "snd (insertTranscript seeded_db seed_transcript) =
     seeded_db\<lparr>transcripts := [seed_transcript]\<rparr>"
  by (simp add: insertTranscript_def getTranscript_def seeded_db_def)

text \<open>
  C6, as stated, fails. The second write of the same transcript for the same message and
  file is not a no-op and confirms nothing: \<^verbatim>\<open>insertTranscript\<close> is a plain \<^verbatim>\<open>INSERT\<close>, the
  \<^verbatim>\<open>UNIQUE\<close> constraint refuses the row and the call throws.
\<close>

theorem C6_second_write_throws_counterexample:
  "fst (insertTranscript seeded_db seed_transcript) = Inr seed_transcript \<and>
   fst (insertTranscript (snd (insertTranscript seeded_db seed_transcript)) seed_transcript) =
     Inl (JsError ''UNIQUE constraint failed: transcripts.message_id, transcripts.file_id'')"
  by (simp add: insertTranscript_def getTranscript_def seeded_db_def)

text \<open>
  C6, amended. A second \<^verbatim>\<open>insertTranscript\<close> for the same message and file is refused with
  a \<^verbatim>\<open>UNIQUE\<close> constraint error, whatever its text, and leaves the store as the first write
  left it. A row that exists is preferred to recomputation: \<^verbatim>\<open>processAudioMessage\<close> returns
  its text and changes nothing, so it asks for no transcription and writes nothing; and
  once a processing has returned a transcript, processing the same message and file again
  returns that transcript and changes nothing.
\<close>

theorem C6_second_write_refused:
  "(t_message_id u = t_message_id t \<and> t_file_id u = t_file_id t \<longrightarrow>
      snd (insertTranscript (snd (insertTranscript d t)) u) = snd (insertTranscript d t) \<and>
      fst (insertTranscript (snd (insertTranscript d t)) u) =
        Inl (JsError ''UNIQUE constraint failed: transcripts.message_id, transcripts.file_id'')) \<and>
   (getTranscript (db w) messageId fileId = Some r \<longrightarrow>
      processAudioMessage env w fileId messageId filePath dur = (Some (transcript_text r), w)) \<and>
   (processAudioMessage env w fileId messageId filePath dur = (Some s, w') \<and> s \<noteq> [] \<longrightarrow>
      processAudioMessage env' w' fileId messageId filePath' dur' = (Some s, w'))"
proof (intro conjI impI)
  assume k: "t_message_id u = t_message_id t \<and> t_file_id u = t_file_id t"
  obtain r where
    r: "getTranscript (snd (insertTranscript d t)) (t_message_id u) (t_file_id u) = Some r"
    using getTranscript_after_insert[of d t] k by auto
  show "snd (insertTranscript (snd (insertTranscript d t)) u) = snd (insertTranscript d t)"
    using insertTranscript_existing[OF r] by simp
  show "fst (insertTranscript (snd (insertTranscript d t)) u) =
      Inl (JsError ''UNIQUE constraint failed: transcripts.message_id, transcripts.file_id'')"
    using insertTranscript_existing[OF r] by simp
next
  assume "getTranscript (db w) messageId fileId = Some r"
  then show "processAudioMessage env w fileId messageId filePath dur =
      (Some (transcript_text r), w)"
    by (rule processAudioMessage_existing)
next
  assume "processAudioMessage env w fileId messageId filePath dur = (Some s, w') \<and> s \<noteq> []"
  then obtain r where "getTranscript (db w') messageId fileId = Some r \<and> transcript_text r = s"
    using processAudioMessage_truthy_stored by blast
  then show "processAudioMessage env' w' fileId messageId filePath' dur' = (Some s, w')"
    using processAudioMessage_existing by fastforce
qed

theorem C6_second_write_refused_witness:
  "t_message_id retry_transcript = t_message_id seed_transcript \<and>
   t_file_id retry_transcript = t_file_id seed_transcript \<and>
   snd (insertTranscript (snd (insertTranscript seeded_db seed_transcript)) retry_transcript) =
     seeded_db\<lparr>transcripts := [seed_transcript]\<rparr> \<and>
   fst (insertTranscript (snd (insertTranscript seeded_db seed_transcript)) retry_transcript) =
     Inl (JsError ''UNIQUE constraint failed: transcripts.message_id, transcripts.file_id'') \<and>
   processAudioMessage example_env (initial_world seeded_db) ''file-1'' ''7''
     ''temp/file-1.oga'' (Some 5) = (Some ''hello'', voice_world) \<and>
   ''hello'' \<noteq> [] \<and>
   processAudioMessage offline_env voice_world ''file-1'' ''7'' ''temp/other.oga'' None =
     (Some ''hello'', voice_world)"
  using C6_second_write_refused[where t = seed_transcript and u = retry_transcript and
      d = seeded_db and w = "initial_world seeded_db" and env = example_env and
      fileId = "''file-1''" and messageId = "''7''" and filePath = "''temp/file-1.oga''" and
      dur = "Some 5" and s = "''hello''" and w' = voice_world and env' = offline_env and
      filePath' = "''temp/other.oga''" and dur' = None]
  by (simp add: first_processing seed_insert retry_transcript_def)
section \<open>What a generation and a fire leave alone\<close>

lemma same_sched_refl [simp]: "same_sched w w"
  by (simp add: same_sched_def)

lemma same_sched_trans: "same_sched w w1 \<Longrightarrow> same_sched w1 w2 \<Longrightarrow> same_sched w w2"
  by (simp add: same_sched_def)

lemma quiet_refl [simp]: "quiet w w"
  by (simp add: quiet_def)

lemma quiet_trans: "quiet w w1 \<Longrightarrow> quiet w1 w2 \<Longrightarrow> quiet w w2"
  by (simp add: quiet_def same_sched_def)

lemma sendMessage_sched: "same_sched w (snd (sendMessage env w c t))"
  by (simp add: sendMessage_def same_sched_def split: option.splits)

lemma getLLMProvider_quiet: "quiet w (snd (getLLMProvider env w))"
  by (simp add: getLLMProvider_def getProvider_def quiet_def same_sched_def Let_def
      split: option.splits)

lemma provider_quiet: "quiet w (snd (provider_generateSummary env w p msgs ctx))"
  by (simp add: provider_generateSummary_def OpenAIProvider_generateSummary_def quiet_def
      same_sched_def Let_def split: provider.splits sum.splits)

lemma generate_try_quiet: "quiet w (snd (generateDailySummary_try env w c d))"
proof (cases "getChat (db w) c")
  case None
  then show ?thesis by (simp add: generateDailySummary_try_def)
next
  case (Some chat)
  show ?thesis
  proof (cases "messages (getMessagesForDate (server_offset_ms env) (db w) c d) = []")
    case True
    then show ?thesis using Some by (simp add: generateDailySummary_try_def Let_def)
  next
    case False
    obtain p w1 where g: "getLLMProvider env w = (p, w1)"
      by (cases "getLLMProvider env w")
    have "quiet w w1"
      using getLLMProvider_quiet[of w env] g by simp
    then have "quiet w (snd (provider_generateSummary env w1 p msgs ctx))" for msgs ctx
      using provider_quiet quiet_trans by blast
    then show ?thesis
      using Some False g by (simp add: generateDailySummary_try_def Let_def)
  qed
qed

lemma generate_quiet: "quiet w (snd (generateDailySummary env w c d))"
proof (cases "generateDailySummary_try env w c d")
  case (Pair r w1)
  then have "quiet w w1"
    using generate_try_quiet[of w env c d] by simp
  then show ?thesis
    using Pair by (cases r) (simp_all add: generateDailySummary_def quiet_def same_sched_def)
qed

lemma generate_sched: "same_sched w (snd (generateDailySummary env w c d))"
  using generate_quiet[of w env c d] by (simp add: quiet_def)

lemma report_try_sched: "same_sched w (snd (executeDailyReport_try env w chat now))"
proof (cases "shouldGenerateSummary (server_offset_ms env) (db w) (chat_id chat)
    (fire_date env now)")
  case False
  then show ?thesis by (simp add: executeDailyReport_try_def Let_def)
next
  case True
  obtain r w1 where g: "generateDailySummary env w (chat_id chat) (fire_date env now) = (r, w1)"
    by (cases "generateDailySummary env w (chat_id chat) (fire_date env now)")
  have a: "same_sched w w1"
    using generate_sched[of w env "chat_id chat" "fire_date env now"] g by simp
  show ?thesis
  proof (cases r)
    case (Inl e)
    then show ?thesis using True g a by (simp add: executeDailyReport_try_def Let_def)
  next
    case (Inr summary)
    have "same_sched w (snd (sendMessage env w1 (chat_id chat) summary))"
      using a sendMessage_sched same_sched_trans by blast
    then show ?thesis using True g Inr by (simp add: executeDailyReport_try_def Let_def)
  qed
qed

lemma report_catch_sched: "same_sched w (snd (executeDailyReport_catch env w chat e))"
  using sendMessage_sched[of "w\<lparr>error_log := error_log w @ [''Failed to execute daily report'']\<rparr>"
      env "chat_id chat" "error_notice e"]
  by (auto simp: executeDailyReport_catch_def Let_def same_sched_def split: prod.splits sum.splits)

lemma report_catch_returns: "fst (executeDailyReport_catch env w chat e) = Inr ()"
  by (simp add: executeDailyReport_catch_def Let_def split: prod.splits sum.splits)

lemma report_sched: "same_sched w (snd (executeDailyReport env w chat now))"
proof (cases "executeDailyReport_try env w chat now")
  case (Pair r w1)
  have a: "same_sched w w1"
    using report_try_sched[of w env chat now] Pair by simp
  show ?thesis
  proof (cases r)
    case (Inl e)
    have "same_sched w (snd (executeDailyReport_catch env w1 chat e))"
      using a report_catch_sched same_sched_trans by blast
    then show ?thesis using Pair Inl by (simp add: executeDailyReport_def)
  next
    case (Inr u)
    then show ?thesis using Pair a by (simp add: executeDailyReport_def)
  qed
qed

lemma report_returns: "fst (executeDailyReport env w chat now) = Inr ()"
  by (simp add: executeDailyReport_def report_catch_returns split: prod.splits sum.splits)

lemma report_notice:
  assumes "executeDailyReport_try env w chat now = (Inl e, w1)"
  shows "send_attempts (snd (executeDailyReport env w chat now)) = send_attempts w1 + 1 \<and>
     sent (snd (executeDailyReport env w chat now)) =
       (if telegram_send env (send_attempts w1) (chat_id chat) (error_notice e) = None
        then sent w1 @ [(chat_id chat, error_notice e)] else sent w1)"
  using assms
  by (simp add: executeDailyReport_def executeDailyReport_catch_def sendMessage_def Let_def
      split: option.splits)

lemma try_generation_failure:
  assumes "shouldGenerateSummary (server_offset_ms env) (db w) (chat_id chat) (fire_date env now)"
    "fst (generateDailySummary env w (chat_id chat) (fire_date env now)) = Inl e"
  shows "executeDailyReport_try env w chat now =
           (Inl e, snd (generateDailySummary env w (chat_id chat) (fire_date env now)))"
  using assms
  by (cases "generateDailySummary env w (chat_id chat) (fire_date env now)")
     (simp add: executeDailyReport_try_def Let_def)

lemma try_delivery_failure:
  assumes "shouldGenerateSummary (server_offset_ms env) (db w) (chat_id chat) (fire_date env now)"
    "generateDailySummary env w (chat_id chat) (fire_date env now) = (Inr summary, w1)"
    "telegram_send env (send_attempts w1) (chat_id chat) summary = Some e"
  shows "executeDailyReport_try env w chat now =
           (Inl e, w1\<lparr>send_attempts := send_attempts w1 + 1\<rparr>)"
  using assms by (simp add: executeDailyReport_try_def Let_def sendMessage_def)

section \<open>The day before the fire\<close>

lemma same_day_window:
  "local_day off t = local_day off t' \<Longrightarrow>
   getMessagesForDate off d c t = getMessagesForDate off d c t'"
  by (simp add: getMessagesForDate_def startOfDay_def endOfDay_def setHours_def)

lemma fire_date_back: "fire_date env now = now - ms_per_day"
proof -
  have "(now + server_offset_ms env) div ms_per_day * ms_per_day +
        (now + server_offset_ms env) mod ms_per_day = now + server_offset_ms env"
    by simp
  then show ?thesis
    by (simp add: fire_date_def setDate_getDate_minus_1_def local_day_def local_time_of_day_def
        algebra_simps)
qed

lemma fire_date_day:
  "local_day (server_offset_ms env) (fire_date env now) = local_day (server_offset_ms env) now - 1"
proof -
  have "now - ms_per_day + server_offset_ms env = now + server_offset_ms env + (- 1) * ms_per_day"
    by simp
  then have "(now - ms_per_day + server_offset_ms env) div ms_per_day =
      (now + server_offset_ms env) div ms_per_day + (- 1)"
    by (simp only: div_mult_self1[of ms_per_day] ms_per_day_def)
  then show ?thesis by (simp add: fire_date_back local_day_def)
qed

lemma fire_date_time_of_day:
  "local_time_of_day (server_offset_ms env) (fire_date env now) =
     local_time_of_day (server_offset_ms env) now"
proof -
  have "now - ms_per_day + server_offset_ms env = now + server_offset_ms env + (- 1) * ms_per_day"
    by simp
  then have "(now - ms_per_day + server_offset_ms env) mod ms_per_day =
      (now + server_offset_ms env) mod ms_per_day"
    by (simp only: mod_mult_self1)
  then show ?thesis by (simp add: fire_date_back local_time_of_day_def)
qed

lemma catch_ignores_timezone:
  "executeDailyReport_catch env w (chat\<lparr>timezone := tz\<rparr>) e = executeDailyReport_catch env w chat e"
  by (simp add: executeDailyReport_catch_def)

lemma report_ignores_timezone:
  "executeDailyReport env w (chat\<lparr>timezone := tz\<rparr>) now = executeDailyReport env w chat now"
  by (simp add: executeDailyReport_def executeDailyReport_try_def Let_def catch_ignores_timezone
      split: prod.splits sum.splits)

text \<open>
  C7, as stated, fails. A chat on Tokyo time reports at 06:00; the server is on UTC. The
  timer fires at 21:00 UTC of 15 January 2024, which is 06:00 of 16 January in Tokyo:
  yesterday in the zone of the chat is 15 January, and the date
  \<^verbatim>\<open>executeDailyReport\<close> computes is 14 January.
\<close>

theorem C7_server_day_counterexample:
  "fixed_zone_offset_ms (timezone tokyo_chat) = Some 32400000 \<and>
   cronExpression example_env tokyo_chat = ''0 6 * * *'' \<and>
   local_time_of_day 32400000 evening_2024_01_15 = 6 * 3600000 \<and>
   date_text (yesterday_in_zone 32400000 evening_2024_01_15) = ''2024-01-15'' \<and>
   date_text (local_day (server_offset_ms example_env) (fire_date example_env evening_2024_01_15)) =
     ''2024-01-14'' \<and>
   local_day (server_offset_ms example_env) (fire_date example_env evening_2024_01_15) \<noteq>
     yesterday_in_zone 32400000 evening_2024_01_15"
  by (simp add: fixed_zone_offset_ms_def tokyo_chat_def test_chat_def cronExpression_def
      example_env_def Number_text_digits_def digit_eval yesterday_in_zone_def fire_date_back
      day_eval evening_2024_01_15_def civil_eval text_eval)

text \<open>
  C7, amended. The target date of a fire is the calendar day before the fire in the local
  time of the server, at the same local time of day; the timezone of the chat plays no
  part in it (it only tells node-cron when to fire).
\<close>

theorem C7_target_is_server_yesterday:
  "local_day (server_offset_ms env) (fire_date env now) = local_day (server_offset_ms env) now - 1 \<and>
   local_time_of_day (server_offset_ms env) (fire_date env now) =
     local_time_of_day (server_offset_ms env) now \<and>
   executeDailyReport env w (chat\<lparr>timezone := tz\<rparr>) now = executeDailyReport env w chat now"
  by (simp add: fire_date_day report_ignores_timezone fire_date_time_of_day)

section \<open>The concrete day\<close>

lemma seeded_facts:
  "db (initial_world d) = d" "db_messages seeded_db = []"
  "getChat seeded_db ''-1001234567890'' = Some test_chat"
  "getChat chatty_db ''-1001234567890'' = Some test_chat"
  "chat_id test_chat = ''-1001234567890''"
  "target_username test_chat = ''@vlad311''"
  "title test_chat = ''Test Chat''"
  by (simp_all add: initial_world_def seeded_db_def chatty_db_def getChat_def test_chat_def)

lemma env_facts:
  "server_offset_ms cet_env = 3600000" "\<not> models_list_ok cet_env"
  "server_offset_ms flaky_env = 3600000" "models_list_ok flaky_env"
  "chat_completion flaky_env msgs ctx = Inl (JsError ''Connection error.'')"
  "telegram_send flaky_env n c t = None"
  "server_offset_ms undelivered_env = 3600000" "\<not> models_list_ok undelivered_env"
  "telegram_send undelivered_env 0 c t = Some (JsError ''502 Bad Gateway'')"
  "telegram_send undelivered_env (Suc n) c t = None"
  by (simp_all add: cet_env_def flaky_env_def example_env_def undelivered_env_def)

lemma world_facts:
  "factory_instance (initial_world d) = None" "llmProvider (initial_world d) = None"
  "backend_requests (initial_world d) = []" "sent (initial_world d) = []"
  "send_attempts (initial_world d) = 0"
  by (simp_all add: initial_world_def)

lemma no_rows: "db_messages d = [] \<Longrightarrow> messages (getMessagesForDate off d c t) = []"
  by (simp add: getMessagesForDate_def getMessagesForDateRange_def joined_rows_def)

lemma fire_day_chatty:
  "getMessagesForDate 3600000 chatty_db ''-1001234567890'' (fire_date cet_env fire_2024_01_16) =
   getMessagesForDate 3600000 chatty_db ''-1001234567890'' noon_2024_01_15"
  by (rule same_day_window)
     (simp add: fire_date_back local_day_def ms_per_day_def fire_2024_01_16_def
       noon_2024_01_15_def)

lemma date_label:
  "toLocaleDateString_ru 3600000 noon_2024_01_15 = ''15.01.2024''"
  "toLocaleDateString_ru 3600000 (fire_date cet_env fire_2024_01_16) = ''15.01.2024''"
  by (simp_all add: fire_date_back fire_2024_01_16_def day_eval noon_2024_01_15_def civil_eval
      text_eval)

lemma chatty_text:
  "FallbackProvider_generateSummary
     [vlad_says ''1'' ''2024-01-15 09:00:00'', vlad_says ''2'' ''2024-01-15 14:00:00'']
     \<lparr>chatTitle = ''Test Chat'', ctx_date = ''15.01.2024'', totalMessages = 3,
      targetUsername = ''@vlad311''\<rparr> = chatty_fallback_text"
  by (simp add: FallbackProvider_generateSummary_def vlad_says_def truthy_def
      chatty_fallback_text_def nat_to_string.simps)

lemma scheduleChat_keeps:
  "llmProvider (snd (scheduleChat env w c)) = llmProvider w"
  "factory_instance (snd (scheduleChat env w c)) = factory_instance w"
  "sent (snd (scheduleChat env w c)) = sent w"
  "send_attempts (snd (scheduleChat env w c)) = send_attempts w"
  "backend_requests (snd (scheduleChat env w c)) = backend_requests w"
  by (cases "cronJobs w (chat_id c)"; cases "schedule_rejected env c";
      simp add: scheduleChat_had scheduleChat_rejected scheduleChat_accepted)+

lemma fire_world_facts:
  "db fire_world = chatty_db" "llmProvider fire_world = None" "factory_instance fire_world = None"
  "sent fire_world = []" "send_attempts fire_world = 0" "backend_requests fire_world = []"
  "timers_of fire_world ''-1001234567890'' =
     [new_job example_env (initial_world seeded_db) test_chat]"
  using timers_registered
  by (simp_all add: fire_world_def registered_world_def scheduleChat_keeps world_facts
      timers_of_def seeded_facts)

lemma should_generate_chatty:
  "shouldGenerateSummary 3600000 chatty_db ''-1001234567890'' (fire_date cet_env fire_2024_01_16)"
  by (simp add: shouldGenerateSummary_def fire_day_chatty day_chatty)

lemma fire_date_env:
  "fire_date flaky_env now = fire_date cet_env now"
  "fire_date undelivered_env now = fire_date cet_env now"
  by (simp_all add: fire_date_back)

lemma flaky_generation:
  assumes "db w = chatty_db" "llmProvider w = None" "factory_instance w = None"
  shows "fst (generateDailySummary flaky_env w ''-1001234567890''
                (fire_date cet_env fire_2024_01_16)) = Inl (JsError ''Connection error.'')"
  using assms
  by (simp add: generateDailySummary_def generateDailySummary_try_def env_facts seeded_facts
      fire_day_chatty day_chatty getLLMProvider_def getProvider_def Let_def
      provider_generateSummary_def OpenAIProvider_generateSummary_def)

section \<open>A day without messages\<close>

lemma empty_day_not_generated:
  "messages (getMessagesForDate off d c t) = [] \<Longrightarrow> \<not> shouldGenerateSummary off d c t"
  by (simp add: shouldGenerateSummary_def)

lemma empty_day_fire:
  "messages (getMessagesForDate (server_offset_ms env) (db w) (chat_id chat)
      (fire_date env now)) = [] \<Longrightarrow>
   executeDailyReport env w chat now = (Inr (), w)"
  by (simp add: executeDailyReport_def executeDailyReport_try_def shouldGenerateSummary_def)

lemma empty_day_summary:
  "messages (getMessagesForDate (server_offset_ms env) (db w) c t) = [] \<Longrightarrow>
   getChat (db w) c = Some chat \<Longrightarrow>
   generateDailySummary env w c t = (Inr (generateEmptySummary (target_username chat)), w)"
  by (simp add: generateDailySummary_def generateDailySummary_try_def)

text \<open>
  C5. When no message is left for a chat and a date after the opted-out authors are
  dropped, \<^verbatim>\<open>shouldGenerateSummary\<close> is false; a fire whose target date that is returns
  without a delivery or an attempt at one, the state of the process being what it was;
  and \<^verbatim>\<open>generateDailySummary\<close> for a stored chat, called directly, as the preview of that
  day or as a manual report, returns the fixed empty-state text for the chat's target and
  leaves the state of the process as it was, so that no request went to the generative
  backend, not even the probe.
\<close>

theorem C5_empty_day_suppressed:
  assumes "messages (getMessagesForDate (server_offset_ms env) (db w) c t) = []"
  shows "\<not> shouldGenerateSummary (server_offset_ms env) (db w) c t \<and>
         (chat_id chat = c \<and> fire_date env now = t \<longrightarrow>
            executeDailyReport env w chat now = (Inr (), w) \<and>
            sent (snd (executeDailyReport env w chat now)) = sent w \<and>
            send_attempts (snd (executeDailyReport env w chat now)) = send_attempts w) \<and>
         (getChat (db w) c = Some stored \<longrightarrow>
            generateDailySummary env w c t =
              (Inr (generateEmptySummary (target_username stored)), w) \<and>
            generatePreviewSummary env w c t =
              (Inr (generateEmptySummary (target_username stored)), w) \<and>
            executeManualReport env w c None t =
              (Inr (generateEmptySummary (target_username stored)), w) \<and>
            backend_requests (snd (generateDailySummary env w c t)) = backend_requests w)"
  using assms empty_day_fire[of env w chat now] empty_day_summary[of env w c t stored]
  by (auto simp: empty_day_not_generated generatePreviewSummary_def executeManualReport_def)

theorem C5_empty_day_suppressed_witness:
  "messages (getMessagesForDate (server_offset_ms cet_env) (db (initial_world seeded_db))
      ''-1001234567890'' (fire_date cet_env fire_2024_01_16)) = [] \<and>
   getChat (db (initial_world seeded_db)) ''-1001234567890'' = Some test_chat \<and>
   \<not> shouldGenerateSummary (server_offset_ms cet_env) (db (initial_world seeded_db))
       ''-1001234567890'' (fire_date cet_env fire_2024_01_16) \<and>
   executeDailyReport cet_env (initial_world seeded_db) test_chat fire_2024_01_16 =
     (Inr (), initial_world seeded_db) \<and>
   generateDailySummary cet_env (initial_world seeded_db) ''-1001234567890''
       (fire_date cet_env fire_2024_01_16) =
     (Inr (''@vlad311'' @ empty_summary_tail), initial_world seeded_db)"
  using C5_empty_day_suppressed[where env = cet_env and w = "initial_world seeded_db" and
      c = "''-1001234567890''" and t = "fire_date cet_env fire_2024_01_16" and
      chat = test_chat and now = fire_2024_01_16 and stored = test_chat]
  by (simp add: seeded_facts no_rows generateEmptySummary_def)

section \<open>The fallback digest\<close>

lemma fallback_text_shape:
  "FallbackProvider_generateSummary msgs ctx \<noteq> [] \<and>
   (\<exists>post. FallbackProvider_generateSummary msgs ctx = targetUsername ctx @ post) \<and>
   (\<exists>pre post. FallbackProvider_generateSummary msgs ctx =
      pre @ (statistics_label @ nat_to_string (totalMessages ctx) @ statistics_suffix) @ post)"
proof (intro conjI)
  show "FallbackProvider_generateSummary msgs ctx \<noteq> []"
    by (simp add: FallbackProvider_generateSummary_def Let_def statistics_label_def utf8_def)
  show "\<exists>post. FallbackProvider_generateSummary msgs ctx = targetUsername ctx @ post"
    by (simp add: FallbackProvider_generateSummary_def Let_def)
  show "\<exists>pre post. FallbackProvider_generateSummary msgs ctx =
      pre @ (statistics_label @ nat_to_string (totalMessages ctx) @ statistics_suffix) @ post"
    unfolding FallbackProvider_generateSummary_def Let_def
    by (rule exI[of _ "targetUsername ctx @ fallback_heading"]) simp
qed

lemma unavailable_provider:
  "\<not> models_list_ok env \<Longrightarrow> factory_instance w = None \<Longrightarrow> llmProvider w = None \<Longrightarrow>
   getLLMProvider env w =
     (FallbackProvider,
      w\<lparr>backend_requests := backend_requests w @ [ModelsList],
        factory_instance := Some FallbackProvider, llmProvider := Some FallbackProvider\<rparr>)"
  by (simp add: getLLMProvider_def getProvider_def Let_def)

lemma fallback_summary:
  assumes "\<not> models_list_ok env" "factory_instance w = None" "llmProvider w = None"
    "getChat (db w) c = Some chat"
    "messages (getMessagesForDate (server_offset_ms env) (db w) c t) \<noteq> []"
  shows "generateDailySummary env w c t =
     (Inr (FallbackProvider_generateSummary
             (messages (getMessagesForDate (server_offset_ms env) (db w) c t))
             \<lparr>chatTitle = title chat, ctx_date = toLocaleDateString_ru (server_offset_ms env) t,
              totalMessages = totalCount (getMessagesForDate (server_offset_ms env) (db w) c t),
              targetUsername = target_username chat\<rparr>),
      w\<lparr>backend_requests := backend_requests w @ [ModelsList],
        factory_instance := Some FallbackProvider, llmProvider := Some FallbackProvider\<rparr>)"
  using assms
  by (simp add: generateDailySummary_def generateDailySummary_try_def Let_def
      unavailable_provider provider_generateSummary_def)

lemma fallback_summary_again:
  assumes "llmProvider w = Some FallbackProvider" "getChat (db w) c = Some chat"
    "messages (getMessagesForDate (server_offset_ms env) (db w) c t) \<noteq> []"
  shows "generateDailySummary env w c t =
     (Inr (FallbackProvider_generateSummary
             (messages (getMessagesForDate (server_offset_ms env) (db w) c t))
             \<lparr>chatTitle = title chat, ctx_date = toLocaleDateString_ru (server_offset_ms env) t,
              totalMessages = totalCount (getMessagesForDate (server_offset_ms env) (db w) c t),
              targetUsername = target_username chat\<rparr>), w)"
  using assms
  by (simp add: generateDailySummary_def generateDailySummary_try_def Let_def
      getLLMProvider_def provider_generateSummary_def)

text \<open>
  C8. When the probe of the generative backend fails and no provider has been chosen yet,
  the digest of a stored chat for a date with messages left is the text of
  \<^verbatim>\<open>FallbackProvider.generateSummary\<close>: a function of the messages and the context alone,
  not empty, beginning with the target mention and containing the statistics line with
  the total message count. The probe is the only request that went out, and asking again
  gives the same text with no request at all.
\<close>

theorem C8_fallback_render:
  assumes "\<not> models_list_ok env" "factory_instance w = None" "llmProvider w = None"
    "getChat (db w) c = Some chat"
    "messages (getMessagesForDate (server_offset_ms env) (db w) c t) \<noteq> []"
  shows "\<exists>text.
     fst (generateDailySummary env w c t) = Inr text \<and> text \<noteq> [] \<and>
     text = FallbackProvider_generateSummary
              (messages (getMessagesForDate (server_offset_ms env) (db w) c t))
              \<lparr>chatTitle = title chat, ctx_date = toLocaleDateString_ru (server_offset_ms env) t,
               totalMessages = totalCount (getMessagesForDate (server_offset_ms env) (db w) c t),
               targetUsername = target_username chat\<rparr> \<and>
     (\<exists>post. text = target_username chat @ post) \<and>
     (\<exists>pre post. text =
        pre @ (statistics_label @
               nat_to_string (totalCount (getMessagesForDate (server_offset_ms env) (db w) c t)) @
               statistics_suffix) @ post) \<and>
     backend_requests (snd (generateDailySummary env w c t)) = backend_requests w @ [ModelsList] \<and>
     generateDailySummary env (snd (generateDailySummary env w c t)) c t =
       (Inr text, snd (generateDailySummary env w c t))"
proof -
  let ?msgs = "messages (getMessagesForDate (server_offset_ms env) (db w) c t)"
  let ?ctx = "\<lparr>chatTitle = title chat, ctx_date = toLocaleDateString_ru (server_offset_ms env) t,
               totalMessages = totalCount (getMessagesForDate (server_offset_ms env) (db w) c t),
               targetUsername = target_username chat\<rparr>"
  let ?w = "w\<lparr>backend_requests := backend_requests w @ [ModelsList],
        factory_instance := Some FallbackProvider, llmProvider := Some FallbackProvider\<rparr>"
  have first: "generateDailySummary env w c t =
      (Inr (FallbackProvider_generateSummary ?msgs ?ctx), ?w)"
    using assms by (rule fallback_summary)
  have again: "generateDailySummary env ?w c t =
      (Inr (FallbackProvider_generateSummary ?msgs ?ctx), ?w)"
    using fallback_summary_again[of ?w c chat env t] assms by simp
  have shape: "FallbackProvider_generateSummary ?msgs ?ctx \<noteq> [] \<and>
     (\<exists>post. FallbackProvider_generateSummary ?msgs ?ctx = target_username chat @ post) \<and>
     (\<exists>pre post. FallbackProvider_generateSummary ?msgs ?ctx =
        pre @ (statistics_label @
               nat_to_string (totalCount (getMessagesForDate (server_offset_ms env) (db w) c t)) @
               statistics_suffix) @ post)"
    using fallback_text_shape[of ?msgs ?ctx] by simp
  show ?thesis
    using first again shape by simp
qed

theorem C8_fallback_render_witness:
  "\<not> models_list_ok cet_env \<and> factory_instance (initial_world chatty_db) = None \<and>
   llmProvider (initial_world chatty_db) = None \<and>
   getChat (db (initial_world chatty_db)) ''-1001234567890'' = Some test_chat \<and>
   messages (getMessagesForDate (server_offset_ms cet_env) (db (initial_world chatty_db))
      ''-1001234567890'' noon_2024_01_15) \<noteq> [] \<and>
   fst (generateDailySummary cet_env (initial_world chatty_db) ''-1001234567890'' noon_2024_01_15) =
     Inr chatty_fallback_text \<and>
   backend_requests (snd (generateDailySummary cet_env (initial_world chatty_db)
      ''-1001234567890'' noon_2024_01_15)) = [ModelsList]"
  using C8_fallback_render[where env = cet_env and w = "initial_world chatty_db" and
      c = "''-1001234567890''" and t = noon_2024_01_15 and chat = test_chat]
  by (simp add: env_facts world_facts seeded_facts day_chatty date_label chatty_text)

section \<open>Failures of a fire\<close>

text \<open>
  C9. \<^verbatim>\<open>executeDailyReport\<close> never throws, whatever the generation and the delivery do,
  and it leaves the timer map and the running tasks as they were, so the timer of the chat
  stays live. When the body has failed, with a generation error or a delivery error, one
  more delivery is attempted, that of the error notice, and the notice is delivered when
  that attempt succeeds.
\<close>

theorem C9_fire_failures_contained:
  "fst (executeDailyReport env w chat now) = Inr () \<and>
   cronJobs (snd (executeDailyReport env w chat now)) = cronJobs w \<and>
   running (snd (executeDailyReport env w chat now)) = running w \<and>
   timers_of (snd (executeDailyReport env w chat now)) c = timers_of w c \<and>
   (executeDailyReport_try env w chat now = (Inl e, w') \<longrightarrow>
      send_attempts (snd (executeDailyReport env w chat now)) = send_attempts w' + 1 \<and>
      sent (snd (executeDailyReport env w chat now)) =
        (if telegram_send env (send_attempts w') (chat_id chat) (error_notice e) = None
         then sent w' @ [(chat_id chat, error_notice e)] else sent w'))"
  using report_sched[of w env chat now] report_notice[of env w chat now e w']
  by (simp add: report_returns same_sched_def timers_of_def)

lemma undelivered_generation:
  "generateDailySummary undelivered_env fire_world ''-1001234567890''
     (fire_date cet_env fire_2024_01_16) =
   (Inr chatty_fallback_text,
    fire_world\<lparr>backend_requests := backend_requests fire_world @ [ModelsList],
      factory_instance := Some FallbackProvider, llmProvider := Some FallbackProvider\<rparr>)"
  using fallback_summary[of undelivered_env fire_world "''-1001234567890''" test_chat
      "fire_date cet_env fire_2024_01_16"]
  by (simp add: env_facts fire_world_facts seeded_facts fire_day_chatty day_chatty date_label
      chatty_text)

lemma undelivered_try:
  "executeDailyReport_try undelivered_env fire_world test_chat fire_2024_01_16 =
     (Inl (JsError ''502 Bad Gateway''),
      fire_world\<lparr>backend_requests := backend_requests fire_world @ [ModelsList],
        factory_instance := Some FallbackProvider, llmProvider := Some FallbackProvider,
        send_attempts := 1\<rparr>)"
  using try_delivery_failure[of undelivered_env fire_world test_chat fire_2024_01_16
      chatty_fallback_text
      "fire_world\<lparr>backend_requests := backend_requests fire_world @ [ModelsList],
        factory_instance := Some FallbackProvider, llmProvider := Some FallbackProvider\<rparr>"
      "JsError ''502 Bad Gateway''"]
    should_generate_chatty undelivered_generation
  by (simp add: env_facts fire_world_facts seeded_facts fire_date_env)

theorem C9_fire_failures_contained_witness:
  "executeDailyReport_try flaky_env fire_world test_chat fire_2024_01_16 =
     (Inl (JsError ''Connection error.''),
      snd (generateDailySummary flaky_env fire_world ''-1001234567890''
             (fire_date cet_env fire_2024_01_16))) \<and>
   fst (executeDailyReport flaky_env fire_world test_chat fire_2024_01_16) = Inr () \<and>
   timers_of (snd (executeDailyReport flaky_env fire_world test_chat fire_2024_01_16))
       (chat_id test_chat) =
     [new_job example_env (initial_world seeded_db) test_chat] \<and>
   sent (snd (executeDailyReport flaky_env fire_world test_chat fire_2024_01_16)) =
     [(''-1001234567890'', error_notice_prefix @ ''Connection error.'')] \<and>
   fst (executeDailyReport_try undelivered_env fire_world test_chat fire_2024_01_16) =
     Inl (JsError ''502 Bad Gateway'') \<and>
   fst (executeDailyReport undelivered_env fire_world test_chat fire_2024_01_16) = Inr () \<and>
   timers_of (snd (executeDailyReport undelivered_env fire_world test_chat fire_2024_01_16))
       (chat_id test_chat) =
     [new_job example_env (initial_world seeded_db) test_chat] \<and>
   sent (snd (executeDailyReport undelivered_env fire_world test_chat fire_2024_01_16)) =
     [(''-1001234567890'', error_notice_prefix @ ''502 Bad Gateway'')]"
proof -
  let ?g = "generateDailySummary flaky_env fire_world ''-1001234567890''
             (fire_date cet_env fire_2024_01_16)"
  let ?u = "fire_world\<lparr>backend_requests := backend_requests fire_world @ [ModelsList],
        factory_instance := Some FallbackProvider, llmProvider := Some FallbackProvider,
        send_attempts := 1\<rparr>"
  have f: "fst ?g = Inl (JsError ''Connection error.'')"
    by (rule flaky_generation) (simp_all add: fire_world_facts)
  have t: "executeDailyReport_try flaky_env fire_world test_chat fire_2024_01_16 =
      (Inl (JsError ''Connection error.''), snd ?g)"
    using try_generation_failure[of flaky_env fire_world test_chat fire_2024_01_16
        "JsError ''Connection error.''"] f should_generate_chatty
    by (simp add: env_facts fire_world_facts seeded_facts fire_date_env)
  have q: "sent (snd ?g) = [] \<and> send_attempts (snd ?g) = 0"
    using generate_quiet[of fire_world flaky_env "''-1001234567890''"
        "fire_date cet_env fire_2024_01_16"]
    by (simp add: quiet_def fire_world_facts)
  have generation: "fst (executeDailyReport flaky_env fire_world test_chat fire_2024_01_16) = Inr () \<and>
      timers_of (snd (executeDailyReport flaky_env fire_world test_chat fire_2024_01_16))
        (chat_id test_chat) = [new_job example_env (initial_world seeded_db) test_chat] \<and>
      sent (snd (executeDailyReport flaky_env fire_world test_chat fire_2024_01_16)) =
        [(''-1001234567890'', error_notice_prefix @ ''Connection error.'')]"
    using C9_fire_failures_contained[where env = flaky_env and w = fire_world and
        chat = test_chat and now = fire_2024_01_16 and e = "JsError ''Connection error.''" and
        w' = "snd ?g" and c = "chat_id test_chat"] t q
    by (simp add: env_facts fire_world_facts seeded_facts error_notice_def)
  have delivery: "fst (executeDailyReport undelivered_env fire_world test_chat fire_2024_01_16) =
        Inr () \<and>
      timers_of (snd (executeDailyReport undelivered_env fire_world test_chat fire_2024_01_16))
        (chat_id test_chat) = [new_job example_env (initial_world seeded_db) test_chat] \<and>
      sent (snd (executeDailyReport undelivered_env fire_world test_chat fire_2024_01_16)) =
        [(''-1001234567890'', error_notice_prefix @ ''502 Bad Gateway'')]"
    using C9_fire_failures_contained[where env = undelivered_env and w = fire_world and
        chat = test_chat and now = fire_2024_01_16 and e = "JsError ''502 Bad Gateway''" and
        w' = ?u and c = "chat_id test_chat"] undelivered_try
    by (simp add: env_facts fire_world_facts seeded_facts error_notice_def)
  show ?thesis
    using t generation delivery undelivered_try by simp
qed

end
